theory Spec2Isabelle
  imports Main "HOL-Library.AList"
begin

section \<open>JavaScript strings\<close>

text \<open>
  A JavaScript string is a sequence of UTF-16 code units; a code unit is given by its
  number.  \<open>lit\<close> is a string of the program text, whose characters are ASCII.
\<close>

type_synonym code_unit = int

type_synonym jstring = "code_unit list"

definition lit :: "string \<Rightarrow> jstring" where
  "lit s = map of_char s"

section \<open>JavaScript values and errors\<close>

text \<open>
  The values that reach the modelled code from JSON files and from untyped callers:
  an absent key or omitted argument (\<open>JUndefined\<close>), \<open>null\<close>, a boolean, a number, a
  string, and an object or array.  A number and an object are given by the text that
  the engine prints for them (\<^verbatim>\<open>String(v)\<close>: \<^verbatim>\<open>5\<close>, \<^verbatim>\<open>[object Object]\<close>, the
  joined elements of an array).  \<open>js_typeof\<close> is the \<^verbatim>\<open>typeof\<close> operator and
  \<open>template\<close> is the conversion done by a template literal \<^verbatim>\<open>`${v}`\<close>.
\<close>

datatype jsval =
  JUndefined | JNull | JBool bool | JNum jstring | JStr jstring | JObject jstring

fun js_typeof :: "jsval \<Rightarrow> jstring" where
  "js_typeof JUndefined = lit ''undefined''"
| "js_typeof JNull = lit ''object''"
| "js_typeof (JBool b) = lit ''boolean''"
| "js_typeof (JNum printed) = lit ''number''"
| "js_typeof (JStr s) = lit ''string''"
| "js_typeof (JObject printed) = lit ''object''"

fun template :: "jsval \<Rightarrow> jstring" where
  "template JUndefined = lit ''undefined''"
| "template JNull = lit ''null''"
| "template (JBool b) = (if b then lit ''true'' else lit ''false'')"
| "template (JNum printed) = printed"
| "template (JStr s) = s"
| "template (JObject printed) = printed"

text \<open>
  A thrown exception is a value: \<open>TypeError msg\<close> for \<^verbatim>\<open>new TypeError(msg)\<close> (and for
  the engine's own type errors), \<open>Error msg\<close> for \<^verbatim>\<open>new Error(msg)\<close>.
\<close>

datatype error = TypeError jstring | Error jstring

text \<open>
  An object used as a bag of named settings is an association list in insertion order;
  reading a key that is absent gives \<open>undefined\<close>, assigning keeps the position of an
  existing key and appends a new one.
\<close>

type_synonym bag = "(jstring \<times> jsval) list"

definition js_get :: "bag \<Rightarrow> jstring \<Rightarrow> jsval" where
  "js_get obj k = (case map_of obj k of None \<Rightarrow> JUndefined | Some v \<Rightarrow> v)"

definition js_set :: "bag \<Rightarrow> jstring \<Rightarrow> jsval \<Rightarrow> bag" where
  "js_set obj k v = AList.update k v obj"

section \<open>adk-helper: the data model\<close>

text \<open>
  Modelled from the spec: the enum \<open>INTENT\<close> is imported from \<^verbatim>\<open>../enums\<close>, which is not
  among the sources; its members are the five the spec lists (NotSpecified, ValidateDemo,
  DeployDemo, HealthCheck, RepairProject), under the names the code uses.
\<close>

datatype INTENT = NOT_SPECIFIED | DEPLOY_DEMO | HEALTH_CHECK | REPAIR_PROJECT | VALIDATE_DEMO

text \<open>
  The project-level configuration: ten fields declared as strings; \<open>None\<close> is a key
  that is absent from \<^verbatim>\<open>sfdx-project.json\<close> (it reads as \<^verbatim>\<open>undefined\<close>).
\<close>

record AppxDemoProjectConfig =
  demoAlias :: "jstring option"
  demoConfig :: "jstring option"
  demoTitle :: "jstring option"
  demoType :: "jstring option"
  demoVersion :: "jstring option"
  gitHubUrl :: "jstring option"
  gitRemoteUri :: "jstring option"
  partnerAlias :: "jstring option"
  partnerName :: "jstring option"
  schemaVersion :: "jstring option"

text \<open>
  The local configuration: the \<^verbatim>\<open>appxDemo\<close> section of the local config file, with
  the three aliases as they are in the file (\<open>JUndefined\<close> for a key that is absent).
\<close>

record AppxDemoLocalConfig =
  devHubAlias :: jsval
  demoValidationOrgAlias :: jsval
  demoDeploymentOrgAlias :: jsval

text \<open>
  The class \<open>AppxDemoProject\<close>: its \<open>context\<close> (path and the two configurations) and
  the two private members of the intent controller.  The constructor stores the
  \<^verbatim>\<open>appxDemo\<close> section of the local config file as it finds it, so the local
  configuration of an object may be \<^verbatim>\<open>undefined\<close> or \<^verbatim>\<open>null\<close>: that is \<open>None\<close>.
\<close>

record AppxDemoProject =
  context_path :: jstring
  context_config_project :: AppxDemoProjectConfig
  context_config_local :: "AppxDemoLocalConfig option"
  executionIntent :: INTENT
  executingSequence :: bool

record FalconSequenceContext =
  ctx_devHubAlias :: jsval
  targetOrgAlias :: jsval
  targetIsScratchOrg :: jsval
  projectPath :: jstring
  configPath :: jstring
  mdapiSourcePath :: jstring
  dataPath :: jstring
  logLevel :: jstring
  sequenceObserver :: jsval

record FalconCommandSequenceStep =
  stepName :: jstring
  step_description :: jstring
  action :: jstring
  step_options :: bag

record FalconCommandSequenceGroup =
  groupId :: jstring
  groupName :: jstring
  group_description :: jstring
  sequenceSteps :: "FalconCommandSequenceStep list"

text \<open>
  The value of \<open>sequenceGroups\<close> in a loaded file is either an array of groups or
  something that is not an array (\<open>validateDemoBuildConfig\<close> tells them apart).
\<close>

datatype groups_value = NotArray jsval | GroupArray "FalconCommandSequenceGroup list"

text \<open>
  The value of \<open>options\<close> in a loaded file: absent or \<^verbatim>\<open>null\<close> (\<open>OptionsMissing\<close>), a
  boolean, number or string (\<open>OptionsPrimitive\<close>), or an object with its settings.
  Nothing checks it before \<open>deployDemo\<close> reads \<^verbatim>\<open>options.rebuildValidationOrg\<close>.
\<close>

datatype options_value = OptionsMissing | OptionsPrimitive | OptionsObject bag

record FalconCommandSequence =
  options :: options_value
  sequenceGroups :: groups_value

text \<open>
  Node's \<^verbatim>\<open>path\<close> library, as far as the two helpers call it.
\<close>

record node_path =
  path_join :: "jstring \<Rightarrow> jstring \<Rightarrow> jstring"
  path_normalize :: "jstring \<Rightarrow> jstring"
  path_resolve :: "jstring \<Rightarrow> jstring"

text \<open>
  The collaborators of the orchestrator that are not among the sources:
  \<open>readConfigFile\<close> of the config helper (the loaded sequence, or the error it throws)
  and \<open>SfdxCommandSequence.execute\<close> (the status report, or the error it throws).
\<close>

record 'r collaborators =
  readConfigFile :: "jstring \<Rightarrow> jstring option \<Rightarrow> error + FalconCommandSequence"
  execute :: "FalconCommandSequence \<Rightarrow> FalconSequenceContext \<Rightarrow> error + 'r"

section \<open>adk-helper: the execution intent controller\<close>

text \<open>
  \<open>setIntent\<close>: the guard on \<open>executingSequence\<close>, then the two assignments, then the
  switch on the requested intent.  The object is returned with the result, so that what
  a throwing call leaves behind is part of the model.
\<close>

definition setIntent :: "INTENT \<Rightarrow> AppxDemoProject \<Rightarrow> (error + unit) \<times> AppxDemoProject" where
  "setIntent intent this =
    (if executingSequence this = True then
       (Inl (Error (lit ''ERROR_SEQUENCE_RUNNING: There is already another sequence running.'')), this)
     else
       let this1 = this\<lparr>executingSequence := True\<rparr>;
           this2 = this1\<lparr>executionIntent := intent\<rparr>
       in (case intent of
             DEPLOY_DEMO \<Rightarrow> (Inr (), this2)
           | HEALTH_CHECK \<Rightarrow>
               (Inl (Error (lit ''ERROR_INTENT_NOT_IMPLEMENTED: Your command uses an intent that is not yet implemented.'')), this2)
           | REPAIR_PROJECT \<Rightarrow>
               (Inl (Error (lit ''ERROR_INTENT_NOT_IMPLEMENTED: Your command uses an intent that is not yet implemented.'')), this2)
           | VALIDATE_DEMO \<Rightarrow> (Inr (), this2)
           | NOT_SPECIFIED \<Rightarrow>
               (Inl (Error (lit ''ERROR_UNKNOWN_INTENT: Your command did not specify a valid intent.'')), this2)))"

section \<open>adk-helper: the sequence assembler\<close>

text \<open>
  The type error of the engine for reading a property of \<^verbatim>\<open>undefined\<close> or \<^verbatim>\<open>null\<close>.
\<close>

definition cannot_read_property :: "jstring \<Rightarrow> error" where
  "cannot_read_property key =
    TypeError (lit ''Cannot read property '' @ [39] @ key @ [39] @ lit '' of undefined'')"

text \<open>
  \<open>getDefaultSequenceContext\<close> reads \<^verbatim>\<open>this.context.config.local.devHubAlias\<close> first:
  without a local configuration that is a type error of the engine.
\<close>

definition getDefaultSequenceContext ::
    "node_path \<Rightarrow> AppxDemoProject \<Rightarrow> error + FalconSequenceContext" where
  "getDefaultSequenceContext node this =
    (case context_config_local this of
       None \<Rightarrow> Inl (cannot_read_property (lit ''devHubAlias''))
     | Some local \<Rightarrow>
         Inr \<lparr>ctx_devHubAlias = devHubAlias local,
              targetOrgAlias = JNull,
              targetIsScratchOrg = JNull,
              projectPath = context_path this,
              configPath = path_join node (context_path this) (lit ''demo-config''),
              mdapiSourcePath = path_join node (context_path this) (lit ''mdapi-source''),
              dataPath = path_join node (context_path this) (lit ''demo-data''),
              logLevel = lit ''error'',
              sequenceObserver = JNull\<rparr>)"

text \<open>
  \<open>validateDemoBuildConfig\<close>: the two hard preconditions on \<open>sequenceGroups\<close>, then
  \<^verbatim>\<open>true\<close>.
\<close>

definition validateDemoBuildConfig :: "FalconCommandSequence \<Rightarrow> error + bool" where
  "validateDemoBuildConfig demoBuildSequence =
    (case sequenceGroups demoBuildSequence of
       NotArray v \<Rightarrow>
         Inl (Error (lit ''ERROR_INVALID_CONFIG: 'sequenceGroups' must be type 'array' not ''
                     @ [39] @ js_typeof v @ [39]))
     | GroupArray gs \<Rightarrow>
         if length gs < 1 then
           Inl (Error (lit ''ERROR_INVALID_CONFIG: 'sequenceGroups' array must contain at least one member''))
         else Inr True)"

text \<open>
  The switch of \<open>deployDemo\<close> on the active intent, which fills the target alias and
  the scratch-org flag of the sequence context.
\<close>

definition selectTarget ::
    "AppxDemoProject \<Rightarrow> FalconSequenceContext \<Rightarrow> error + FalconSequenceContext" where
  "selectTarget this sequenceContext =
    (case executionIntent this of
       VALIDATE_DEMO \<Rightarrow>
         (case context_config_local this of
            None \<Rightarrow> Inl (cannot_read_property (lit ''demoValidationOrgAlias''))
          | Some local \<Rightarrow>
              Inr (sequenceContext
                    \<lparr>targetOrgAlias := demoValidationOrgAlias local,
                     targetIsScratchOrg := JBool True\<rparr>))
     | DEPLOY_DEMO \<Rightarrow>
         (case context_config_local this of
            None \<Rightarrow> Inl (cannot_read_property (lit ''demoDeploymentOrgAlias''))
          | Some local \<Rightarrow>
              Inr (sequenceContext
                    \<lparr>targetOrgAlias := demoDeploymentOrgAlias local,
                     targetIsScratchOrg := JBool False\<rparr>))
     | _ \<Rightarrow> Inl (Error (lit ''ERROR_INVALID_INTENT: The specified Execution Intent is not valid'')))"

text \<open>
  Reading and writing a property of \<open>options\<close>.  Reading from a missing \<open>options\<close> is
  a type error of the engine; a primitive has no such property.  Writing to a
  primitive is a type error as well: the module is compiled from TypeScript as a
  module, which runs in strict mode.
\<close>

definition options_get :: "options_value \<Rightarrow> jstring \<Rightarrow> error + jsval" where
  "options_get opts key =
    (case opts of
       OptionsMissing \<Rightarrow> Inl (cannot_read_property key)
     | OptionsPrimitive \<Rightarrow> Inr JUndefined
     | OptionsObject obj \<Rightarrow> Inr (js_get obj key))"

definition options_set :: "options_value \<Rightarrow> jstring \<Rightarrow> jsval \<Rightarrow> error + options_value" where
  "options_set opts key v =
    (case opts of
       OptionsMissing \<Rightarrow>
         Inl (TypeError (lit ''Cannot set property '' @ [39] @ key @ [39] @ lit '' of undefined''))
     | OptionsPrimitive \<Rightarrow>
         Inl (TypeError (lit ''Cannot create property '' @ [39] @ key @ [39]))
     | OptionsObject obj \<Rightarrow> Inr (OptionsObject (js_set obj key v)))"

text \<open>
  The default of \<open>rebuildValidationOrg\<close>: written back into the options when the value
  is not a boolean.
\<close>

definition coerceRebuildValidationOrg ::
    "FalconCommandSequence \<Rightarrow> error + FalconCommandSequence" where
  "coerceRebuildValidationOrg demoBuildSequence =
    (case options_get (options demoBuildSequence) (lit ''rebuildValidationOrg'') of
       Inl e \<Rightarrow> Inl e
     | Inr v \<Rightarrow>
         if js_typeof v \<noteq> lit ''boolean'' then
           (case options_set (options demoBuildSequence) (lit ''rebuildValidationOrg'')
                   (JBool True) of
              Inl e \<Rightarrow> Inl e
            | Inr opts \<Rightarrow> Inr (demoBuildSequence\<lparr>options := opts\<rparr>))
         else Inr demoBuildSequence)"

text \<open>
  The object literal \<open>rebuildScratchOrgSequenceGroup\<close>, given the two strings that its
  template literals produce: \<^verbatim>\<open>`${sequenceContext.targetOrgAlias}`\<close> and
  \<^verbatim>\<open>`${demoBuildSequence.options.scratchDefJson}`\<close>.
\<close>

definition rebuildGroupLiteral :: "jstring \<Rightarrow> jstring \<Rightarrow> FalconCommandSequenceGroup" where
  "rebuildGroupLiteral scratchOrgAlias scratchDefJson =
    \<lparr>groupId = lit ''rebuild-org'',
     groupName = lit ''Refresh Scratch Org'',
     group_description = lit ''Deletes the current validation scratch org and creates a new one'',
     sequenceSteps =
       [\<lparr>stepName = lit ''Delete Old Demo Validation Org'',
         step_description = lit ''Deletes the current Demo Validation scratch org'',
         action = lit ''delete-scratch-org'',
         step_options =
           [(lit ''scratchOrgAlias'', JStr scratchOrgAlias),
            (lit ''scratchDefJson'', JStr scratchDefJson)]\<rparr>,
        \<lparr>stepName = lit ''Create New Demo Validation Org'',
         step_description = lit ''Creates a new Demo Validation scratch org'',
         action = lit ''create-scratch-org'',
         step_options =
           [(lit ''scratchOrgAlias'', JStr scratchOrgAlias),
            (lit ''scratchDefJson'', JStr scratchDefJson)]\<rparr>]\<rparr>"

definition rebuildScratchOrgSequenceGroup ::
    "FalconSequenceContext \<Rightarrow> FalconCommandSequence \<Rightarrow> error + FalconCommandSequenceGroup" where
  "rebuildScratchOrgSequenceGroup sequenceContext demoBuildSequence =
    (case options_get (options demoBuildSequence) (lit ''scratchDefJson'') of
       Inl e \<Rightarrow> Inl e
     | Inr scratchDefJson \<Rightarrow>
         Inr (rebuildGroupLiteral (template (targetOrgAlias sequenceContext))
                (template scratchDefJson)))"

text \<open>
  \<^verbatim>\<open>sequenceGroups.unshift(group)\<close>: on an array the group goes to the front; on a
  value that is not an array the call is a type error of the engine.
\<close>

definition unshift :: "FalconCommandSequenceGroup \<Rightarrow> groups_value \<Rightarrow> error + groups_value" where
  "unshift g gv =
    (case gv of
       GroupArray gs \<Rightarrow> Inr (GroupArray (g # gs))
     | NotArray v \<Rightarrow> Inl (TypeError (lit ''demoBuildSequence.sequenceGroups.unshift is not a function'')))"

text \<open>
  The conditional transformation of \<open>deployDemo\<close>: the default of the option, then,
  only for \<open>VALIDATE_DEMO\<close> with the option true, the rebuild group in front.
\<close>

definition insertRebuildGroup ::
    "INTENT \<Rightarrow> FalconSequenceContext \<Rightarrow> FalconCommandSequence \<Rightarrow> error + FalconCommandSequence" where
  "insertRebuildGroup intent sequenceContext demoBuildSequence0 =
    (case coerceRebuildValidationOrg demoBuildSequence0 of
       Inl e \<Rightarrow> Inl e
     | Inr demoBuildSequence \<Rightarrow>
         (case options_get (options demoBuildSequence) (lit ''rebuildValidationOrg'') of
            Inl e \<Rightarrow> Inl e
          | Inr rebuildValidationOrg \<Rightarrow>
              if intent = VALIDATE_DEMO \<and> rebuildValidationOrg = JBool True then
                (case rebuildScratchOrgSequenceGroup sequenceContext demoBuildSequence of
                   Inl e \<Rightarrow> Inl e
                 | Inr rebuildGroup \<Rightarrow>
                     (case unshift rebuildGroup (sequenceGroups demoBuildSequence) of
                        Inl e \<Rightarrow> Inl e
                      | Inr gv \<Rightarrow> Inr (demoBuildSequence\<lparr>sequenceGroups := gv\<rparr>)))
              else Inr demoBuildSequence))"

text \<open>
  The middle of \<open>deployDemo\<close>, from the loading of the sequence to the conditional
  transformation: what it hands on is the transformed sequence with the sequence
  context it was given.
\<close>

definition loadAndTransform ::
    "'r collaborators \<Rightarrow> AppxDemoProject \<Rightarrow> FalconSequenceContext \<Rightarrow>
       error + FalconCommandSequence \<times> FalconSequenceContext" where
  "loadAndTransform env this sequenceContext =
    (case readConfigFile env (configPath sequenceContext)
            (demoConfig (context_config_project this)) of
       Inl e \<Rightarrow> Inl e
     | Inr demoBuildSequence \<Rightarrow>
         (case validateDemoBuildConfig demoBuildSequence of
            Inl e \<Rightarrow> Inl e
          | Inr _ \<Rightarrow>
              (case insertRebuildGroup (executionIntent this) sequenceContext
                      demoBuildSequence of
                 Inl e \<Rightarrow> Inl e
               | Inr assembled \<Rightarrow> Inr (assembled, sequenceContext))))"

text \<open>
  \<open>deployDemo\<close> up to the construction of the \<open>SfdxCommandSequence\<close>: the default of
  the intent, the default sequence context, the switch on the intent, then the loading
  and the transformation.  The result is the pair handed to the executor (or the error
  thrown before), and the object as it is left.
\<close>

definition deployDemo_assemble ::
    "node_path \<Rightarrow> 'r collaborators \<Rightarrow> AppxDemoProject \<Rightarrow>
       (error + FalconCommandSequence \<times> FalconSequenceContext) \<times> AppxDemoProject" where
  "deployDemo_assemble node env this0 =
    (case (if executionIntent this0 = NOT_SPECIFIED then setIntent DEPLOY_DEMO this0
           else (Inr (), this0)) of
       (Inl e, this) \<Rightarrow> (Inl e, this)
     | (Inr _, this) \<Rightarrow>
         (case getDefaultSequenceContext node this of
            Inl e \<Rightarrow> (Inl e, this)
          | Inr defaultContext \<Rightarrow>
              (case selectTarget this defaultContext of
                 Inl e \<Rightarrow> (Inl e, this)
               | Inr sequenceContext \<Rightarrow> (loadAndTransform env this sequenceContext, this))))"

definition deployDemo ::
    "node_path \<Rightarrow> 'r collaborators \<Rightarrow> AppxDemoProject \<Rightarrow> (error + 'r) \<times> AppxDemoProject" where
  "deployDemo node env this0 =
    (case deployDemo_assemble node env this0 of
       (Inl e, this) \<Rightarrow> (Inl e, this)
     | (Inr (demoBuildSequence, sequenceContext), this) \<Rightarrow>
         (execute env demoBuildSequence sequenceContext, this))"

definition validateDemo ::
    "node_path \<Rightarrow> 'r collaborators \<Rightarrow> AppxDemoProject \<Rightarrow> (error + 'r) \<times> AppxDemoProject" where
  "validateDemo node env this0 =
    (case setIntent VALIDATE_DEMO this0 of
       (Inl e, this) \<Rightarrow> (Inl e, this)
     | (Inr _, this) \<Rightarrow> deployDemo node env this)"

section \<open>adk-helper: project resolution\<close>

text \<open>
  \<open>validateAppxDemoConfig\<close> returns \<^verbatim>\<open>true\<close> or the array of the keys it pushed.
  \<open>falsy\<close> is \<^verbatim>\<open>!field\<close> on a field that is a string or absent.
\<close>

datatype validation_response = IsTrue | Keys "jstring list"

definition falsy :: "jstring option \<Rightarrow> bool" where
  "falsy v = (case v of None \<Rightarrow> True | Some s \<Rightarrow> s = [])"

definition push_if :: "bool \<Rightarrow> jstring \<Rightarrow> jstring list \<Rightarrow> jstring list" where
  "push_if b k ks = (if b then ks @ [k] else ks)"

definition invalidKeys :: "AppxDemoProjectConfig \<Rightarrow> jstring list" where
  "invalidKeys appxDemoConfig =
    (let invalidConfigKeys = [];
         invalidConfigKeys = push_if (falsy (demoAlias appxDemoConfig)) (lit ''demoAlias'') invalidConfigKeys;
         invalidConfigKeys = push_if (falsy (demoConfig appxDemoConfig)) (lit ''demoConfig'') invalidConfigKeys;
         invalidConfigKeys = push_if (falsy (demoTitle appxDemoConfig)) (lit ''demoTitle'') invalidConfigKeys;
         invalidConfigKeys = push_if (falsy (demoType appxDemoConfig)) (lit ''demoType'') invalidConfigKeys;
         invalidConfigKeys = push_if (falsy (demoVersion appxDemoConfig)) (lit ''demoVersion'') invalidConfigKeys;
         invalidConfigKeys = push_if (falsy (gitHubUrl appxDemoConfig)) (lit ''gitHubUrl'') invalidConfigKeys;
         invalidConfigKeys = push_if (falsy (gitRemoteUri appxDemoConfig)) (lit ''gitRemoteUri'') invalidConfigKeys;
         invalidConfigKeys = push_if (falsy (partnerAlias appxDemoConfig)) (lit ''partnerAlias'') invalidConfigKeys;
         invalidConfigKeys = push_if (falsy (partnerName appxDemoConfig)) (lit ''partnerName'') invalidConfigKeys;
         invalidConfigKeys = push_if (falsy (schemaVersion appxDemoConfig)) (lit ''schemaVersion'') invalidConfigKeys
     in invalidConfigKeys)"

definition validateAppxDemoConfig :: "AppxDemoProjectConfig \<Rightarrow> validation_response" where
  "validateAppxDemoConfig appxDemoConfig =
    (let invalidConfigKeys = invalidKeys appxDemoConfig
     in if length invalidConfigKeys > 0 then Keys invalidConfigKeys else IsTrue)"

text \<open>
  An array of strings inside a template literal: its elements joined by commas.
\<close>

fun array_toString :: "jstring list \<Rightarrow> jstring" where
  "array_toString [] = []"
| "array_toString [k] = k"
| "array_toString (k # ks) = k @ lit '','' @ array_toString ks"

text \<open>
  What \<open>resolve\<close> gets from \<^verbatim>\<open>@salesforce/core\<close>: the path of the resolved SFDX
  project, the \<^verbatim>\<open>plugins.sfdxFalcon.appxDemo\<close> object of its resolved configuration
  (\<open>None\<close> when that path of properties cannot be read), and the local config file
  with its existence on disk and its \<^verbatim>\<open>toObject().appxDemo\<close> (\<open>None\<close> when the
  file has no such section).
\<close>

record ConfigFile =
  file_exists :: bool
  toObject_appxDemo :: "error + AppxDemoLocalConfig option"

record sfdx_core =
  SfdxProject_resolve :: "jstring \<Rightarrow> error + jstring"
  resolveProjectConfig :: "jstring \<Rightarrow> error + AppxDemoProjectConfig option"
  ConfigFile_retrieve :: "jstring \<Rightarrow> jstring \<Rightarrow> error + ConfigFile"

text \<open>
  The constructor, called by \<open>resolve\<close> with the project configuration as \<open>resolve\<close>
  left it (the override is written into the object the constructor reads).
\<close>

definition construct ::
    "jstring \<Rightarrow> AppxDemoProjectConfig \<Rightarrow> ConfigFile \<Rightarrow> error + AppxDemoProject" where
  "construct sfdxProjectPath appxDemo localFalconConfigFile =
    (case toObject_appxDemo localFalconConfigFile of
       Inl parseError \<Rightarrow>
         Inl (Error (lit ''ERROR_UNPARSED_CONFIG: ''
                     @ (case parseError of TypeError m \<Rightarrow> (lit ''TypeError: '') @ m
                                         | Error m \<Rightarrow> (lit ''Error: '') @ m)))
     | Inr local \<Rightarrow>
         Inr \<lparr>context_path = sfdxProjectPath,
              context_config_project = appxDemo,
              context_config_local = local,
              executionIntent = NOT_SPECIFIED,
              executingSequence = False\<rparr>)"

definition resolve ::
    "node_path \<Rightarrow> sfdx_core \<Rightarrow> jstring \<Rightarrow> jstring \<Rightarrow> error + AppxDemoProject" where
  "resolve node core projectDirectory demoConfigOverride =
    (case SfdxProject_resolve core projectDirectory of
       Inl e \<Rightarrow> Inl e
     | Inr sfdxProject \<Rightarrow>
    (case resolveProjectConfig core sfdxProject of
       Inl e \<Rightarrow> Inl e
     | Inr sfdxProjectConfig \<Rightarrow>
    (let rootFolder = path_join node sfdxProject (lit ''.sfdx-falcon'');
         filename = lit ''sfdx-falcon-config.json''
     in
    (case ConfigFile_retrieve core rootFolder filename of
       Inl e \<Rightarrow> Inl e
     | Inr localFalconConfigFile \<Rightarrow>
    if file_exists localFalconConfigFile = False then
      Inl (Error (lit ''ERROR_CONFIG_NOT_FOUND: File does not exist - ''
                  @ path_join node rootFolder filename))
    else
    (case sfdxProjectConfig of
       None \<Rightarrow> Inl (TypeError (lit ''Cannot read property of undefined''))
     | Some appxDemoProjectConfig \<Rightarrow>
    (case validateAppxDemoConfig appxDemoProjectConfig of
       Keys validationResponse \<Rightarrow>
         Inl (Error (lit ''ERROR_INVALID_CONFIG: Configuration for 'appxDemo' in sfdx-project.json has missing/invalid settings (''
                     @ array_toString validationResponse @ lit '').''))
     | IsTrue \<Rightarrow>
         construct sfdxProject
           (if demoConfigOverride \<noteq> [] then
              appxDemoProjectConfig\<lparr>demoConfig := Some demoConfigOverride\<rparr>
            else appxDemoProjectConfig)
           localFalconConfigFile))))))"

section \<open>git-helper: the shell\<close>

text \<open>
  What the helpers do to the outside world, in the order they do it: the shelljs calls
  (\<open>Exec\<close> is \<^verbatim>\<open>shell.exec\<close> of a command line, in either of its forms) and the delay
  of \<open>waitASecond\<close>.  The history of a run is the list of these effects.
\<close>

datatype effect = Cd jstring | Pwd | Mkdir_p jstring | Exec jstring | Wait int

record ShellString =
  code :: int
  stdout :: jstring
  stderr :: jstring

text \<open>
  The outside world is a function: what a shelljs call answers, given everything that
  was done before it.
\<close>

type_synonym shell = "effect list \<Rightarrow> effect \<Rightarrow> ShellString"

text \<open>
  \<open>run\<close> is a call that hands its result back (the callback form of
  \<^verbatim>\<open>shell.exec\<close>).  \<open>run_fatal\<close> is a call under \<^verbatim>\<open>shell.config.fatal = true\<close>,
  which the module sets when it is loaded: a call that ends with a code other than 0
  throws, as the comments of the source say it does.
\<close>

definition run :: "shell \<Rightarrow> effect \<Rightarrow> effect list \<Rightarrow> ShellString \<times> effect list" where
  "run sh c hist = (sh hist c, hist @ [c])"

definition run_fatal ::
    "shell \<Rightarrow> effect \<Rightarrow> effect list \<Rightarrow> (error + ShellString) \<times> effect list" where
  "run_fatal sh c hist =
    (let r = sh hist c
     in (if code r \<noteq> 0 then Inl (Error (stderr r)) else Inr r, hist @ [c]))"

text \<open>
  The string inside a value that has passed a \<^verbatim>\<open>typeof v === 'string'\<close> test.
\<close>

fun the_string :: "jsval \<Rightarrow> jstring" where
  "the_string (JStr s) = s"
| "the_string _ = []"

text \<open>
  \<^verbatim>\<open>String.prototype.trim\<close> removes white space and line terminators from both ends.
  These are the code units U+0009 to U+000D, U+0020, U+00A0, U+1680, U+2000 to U+200A,
  U+2028, U+2029, U+202F, U+205F, U+3000 and U+FEFF: the tab, the line terminators, the
  byte order mark and the space separators of Unicode (U+180E has not been a space
  separator since Unicode 6.3).  Each of them is a single code unit.
\<close>

definition is_space :: "code_unit \<Rightarrow> bool" where
  "is_space c =
    ((0x0009 \<le> c \<and> c \<le> 0x000D) \<or> c = 0x0020 \<or> c = 0x00A0 \<or> c = 0x1680
     \<or> (0x2000 \<le> c \<and> c \<le> 0x200A) \<or> c = 0x2028 \<or> c = 0x2029 \<or> c = 0x202F
     \<or> c = 0x205F \<or> c = 0x3000 \<or> c = 0xFEFF)"

definition trim :: "jstring \<Rightarrow> jstring" where
  "trim s = rev (dropWhile is_space (rev (dropWhile is_space s)))"

section \<open>git-helper: the provisioner\<close>

text \<open>
  The directory change of \<open>gitClone\<close> with its fallback: the first \<^verbatim>\<open>try\<close> block
  (\<^verbatim>\<open>cd\<close>, then \<^verbatim>\<open>pwd\<close>), and in its \<^verbatim>\<open>catch\<close> the creation of the directory and
  the second \<^verbatim>\<open>cd\<close>.
\<close>

definition createAndEnter ::
    "shell \<Rightarrow> jstring \<Rightarrow> effect list \<Rightarrow> (error + unit) \<times> effect list" where
  "createAndEnter sh targetDirectory hist =
    (case run_fatal sh (Mkdir_p targetDirectory) hist of
       (Inl mkdirError, h1) \<Rightarrow> (Inl (Error (lit ''ERROR_INVALID_TARGET_DIR'')), h1)
     | (Inr _, h1) \<Rightarrow>
         (case run_fatal sh (Cd targetDirectory) h1 of
            (Inl cdError2, h2) \<Rightarrow> (Inl (Error (lit ''ERROR_NO_TARGET_DIR'')), h2)
          | (Inr _, h2) \<Rightarrow> (Inr (), h2)))"

definition enterTarget ::
    "shell \<Rightarrow> jstring \<Rightarrow> effect list \<Rightarrow> (error + unit) \<times> effect list" where
  "enterTarget sh targetDirectory hist =
    (case run_fatal sh (Cd targetDirectory) hist of
       (Inl cdError, h1) \<Rightarrow> createAndEnter sh targetDirectory h1
     | (Inr _, h1) \<Rightarrow>
         (case run_fatal sh Pwd h1 of
            (Inl cdError, h2) \<Rightarrow> createAndEnter sh targetDirectory h2
          | (Inr _, h2) \<Rightarrow> (Inr (), h2)))"

definition gitClone ::
    "node_path \<Rightarrow> shell \<Rightarrow> jsval \<Rightarrow> jsval \<Rightarrow> effect list \<Rightarrow> (error + unit) \<times> effect list" where
  "gitClone node sh remoteUri targetDirectory0 hist =
    (let targetDirectory = (if targetDirectory0 = JUndefined then JStr (lit ''.'') else targetDirectory0)
     in
     if js_typeof remoteUri \<noteq> lit ''string'' \<or> js_typeof targetDirectory \<noteq> lit ''string'' then
       (Inl (TypeError (lit ''ERROR_UNEXPECTED_TYPE'')), hist)
     else if trim (the_string targetDirectory) = [] then
       (Inl (Error (lit ''ERROR_INVALID_VALUE'')), hist)
     else
       let targetDirectory = path_resolve node (path_normalize node (the_string targetDirectory))
       in (case enterTarget sh targetDirectory hist of
             (Inl e, h) \<Rightarrow> (Inl e, h)
           | (Inr _, h) \<Rightarrow>
               (case run_fatal sh (Exec (lit ''git clone '' @ template remoteUri)) h of
                  (Inl gitCloneError, h') \<Rightarrow>
                    (Inl (Error (lit ''Destination path '' @ [39] @ targetDirectory @ [39]
                                 @ lit '' already exists and is not an empty directory.'')), h')
                | (Inr _, h') \<Rightarrow> (Inr (), h'))))"

text \<open>
  The three single-command wrappers.  An error thrown by shelljs is not caught.  (The
  parameter \<open>gitRemoteUri\<close> of the source is \<open>remoteUri\<close> here and below.)
\<close>

definition expected_non_empty_string :: "jstring \<Rightarrow> jsval \<Rightarrow> error" where
  "expected_non_empty_string name v =
    TypeError (lit ''ERROR_INVALID_TYPE: Expected non-empty string for '' @ name @ lit '' but got ''
               @ js_typeof v)"

definition gitInit :: "shell \<Rightarrow> jsval \<Rightarrow> effect list \<Rightarrow> (error + unit) \<times> effect list" where
  "gitInit sh targetDirectory hist =
    (if js_typeof targetDirectory \<noteq> lit ''string'' \<or> targetDirectory = JStr [] then
       (Inl (expected_non_empty_string (lit ''targetDirectory'') targetDirectory), hist)
     else
       (case run_fatal sh (Cd (the_string targetDirectory)) hist of
          (Inl e, h1) \<Rightarrow> (Inl e, h1)
        | (Inr _, h1) \<Rightarrow>
            (case run_fatal sh (Exec (lit ''git init'')) h1 of
               (Inl e, h2) \<Rightarrow> (Inl e, h2)
             | (Inr _, h2) \<Rightarrow> (Inr (), h2))))"

definition gitAddAndCommit ::
    "shell \<Rightarrow> jsval \<Rightarrow> jsval \<Rightarrow> effect list \<Rightarrow> (error + unit) \<times> effect list" where
  "gitAddAndCommit sh targetDirectory commitMessage hist =
    (if js_typeof targetDirectory \<noteq> lit ''string'' \<or> targetDirectory = JStr [] then
       (Inl (expected_non_empty_string (lit ''targetDirectory'') targetDirectory), hist)
     else if js_typeof commitMessage \<noteq> lit ''string'' \<or> commitMessage = JStr [] then
       (Inl (expected_non_empty_string (lit ''commitMessage'') commitMessage), hist)
     else
       (case run_fatal sh (Cd (the_string targetDirectory)) hist of
          (Inl e, h1) \<Rightarrow> (Inl e, h1)
        | (Inr _, h1) \<Rightarrow>
            (case run_fatal sh (Exec (lit ''git add -A'')) h1 of
               (Inl e, h2) \<Rightarrow> (Inl e, h2)
             | (Inr _, h2) \<Rightarrow>
                 (case run_fatal sh
                         (Exec (lit ''git commit -m '' @ [34] @ template commitMessage @ [34]))
                         h2 of
                    (Inl e, h3) \<Rightarrow> (Inl e, h3)
                  | (Inr _, h3) \<Rightarrow> (Inr (), h3)))))"

definition gitRemoteAddOrigin ::
    "shell \<Rightarrow> jsval \<Rightarrow> jsval \<Rightarrow> effect list \<Rightarrow> (error + unit) \<times> effect list" where
  "gitRemoteAddOrigin sh targetDirectory remoteUri hist =
    (if js_typeof targetDirectory \<noteq> lit ''string'' \<or> targetDirectory = JStr [] then
       (Inl (expected_non_empty_string (lit ''targetDirectory'') targetDirectory), hist)
     else if js_typeof remoteUri \<noteq> lit ''string'' \<or> remoteUri = JStr [] then
       (Inl (expected_non_empty_string (lit ''gitRemoteUri'') remoteUri), hist)
     else
       (case run_fatal sh (Cd (the_string targetDirectory)) hist of
          (Inl e, h1) \<Rightarrow> (Inl e, h1)
        | (Inr _, h1) \<Rightarrow>
            (case run_fatal sh (Exec (lit ''git remote add origin '' @ template remoteUri)) h1 of
               (Inl e, h2) \<Rightarrow> (Inl e, h2)
             | (Inr _, h2) \<Rightarrow> (Inr (), h2))))"

section \<open>git-helper: the remote repository state classifier\<close>

text \<open>
  The blocking form: \<^verbatim>\<open>true\<close> when the probe did not throw.
\<close>

definition isGitRemoteEmpty ::
    "shell \<Rightarrow> jsval \<Rightarrow> effect list \<Rightarrow> (error + bool) \<times> effect list" where
  "isGitRemoteEmpty sh remoteUri hist =
    (if js_typeof remoteUri \<noteq> lit ''string'' then (Inl (TypeError (lit ''ERROR_UNEXPECTED_TYPE'')), hist)
     else
       (case run_fatal sh (Exec (lit ''git ls-remote --exit-code -h '' @ template remoteUri)) hist of
          (Inl err, h) \<Rightarrow> (Inr False, h)
        | (Inr _, h) \<Rightarrow> (Inr True, h)))"

text \<open>
  The asynchronous form.  Its second parameter is a number (\<open>NaN\<close> or a count of
  seconds; the default 0 is the caller's).  The promise it returns settles in one of
  three ways: resolved with the result object, rejected with it, or rejected with the
  type error thrown by the argument check.
\<close>

datatype js_number = NaN | Number int

record returnObject =
  ro_code :: int
  ro_stdout :: jstring
  ro_stderr :: jstring
  message :: jstring
  ro_resolve :: bool

datatype settled = Resolved returnObject | Rejected returnObject | Thrown error

text \<open>
  The callback of \<^verbatim>\<open>shell.exec\<close>: the result object and the switch on the exit code.
\<close>

definition probeCallback :: "ShellString \<Rightarrow> settled" where
  "probeCallback r =
    (let returnObject =
           \<lparr>ro_code = code r, ro_stdout = stdout r, ro_stderr = stderr r,
            message = [], ro_resolve = False\<rparr>;
         returnObject =
           (if code r = 0 then
              returnObject\<lparr>message := lit ''Remote repository found'', ro_resolve := True\<rparr>
            else if code r = 2 then
              returnObject\<lparr>message := lit ''Remote repository contains no commits'',
                            ro_resolve := False\<rparr>
            else if code r = 128 then
              returnObject\<lparr>message := lit ''Remote repository not found'', ro_resolve := False\<rparr>
            else
              returnObject\<lparr>message := lit ''Unexpected Error'', ro_resolve := False\<rparr>)
     in if ro_resolve returnObject then Resolved returnObject else Rejected returnObject)"

definition isGitRemoteEmptyAsync ::
    "shell \<Rightarrow> jsval \<Rightarrow> js_number \<Rightarrow> effect list \<Rightarrow> settled \<times> effect list" where
  "isGitRemoteEmptyAsync sh remoteUri waitSeconds hist =
    (if js_typeof remoteUri \<noteq> lit ''string'' \<or> waitSeconds = NaN then
       (Thrown (TypeError (lit ''ERROR_UNEXPECTED_TYPE'')), hist)
     else
       let h0 = (case waitSeconds of
                   Number n \<Rightarrow> if n > 0 then hist @ [Wait n] else hist
                 | NaN \<Rightarrow> hist)
       in (case run sh (Exec (lit ''git ls-remote --exit-code -h '' @ template remoteUri)) h0 of
             (r, h1) \<Rightarrow> (probeCallback r, h1)))"

section \<open>git-helper: the repository name of a URI\<close>

text \<open>
  \<open>repoNameRegEx\<close> is \<^verbatim>\<open>/\/(\w|-)+\.git\/*$/\<close>.  A match ends where the string ends,
  so the text of a match that starts at some position is the rest of the string from
  there.  After the slash the group takes word characters and hyphens; it has to take
  all of them, since what follows must be a dot.  \<open>regex_exec\<close> tries the positions
  from left to right, as \<^verbatim>\<open>exec\<close> does, and gives \<open>None\<close> for \<^verbatim>\<open>null\<close>.
\<close>

definition is_word_char :: "code_unit \<Rightarrow> bool" where
  "is_word_char c =
    ((of_char CHR ''0'' \<le> c \<and> c \<le> of_char CHR ''9'')
     \<or> (of_char CHR ''A'' \<le> c \<and> c \<le> of_char CHR ''Z'')
     \<or> c = of_char CHR ''_''
     \<or> (of_char CHR ''a'' \<le> c \<and> c \<le> of_char CHR ''z''))"

definition is_name_char :: "code_unit \<Rightarrow> bool" where
  "is_name_char c = (is_word_char c \<or> c = of_char CHR ''-'')"

definition match_here :: "jstring \<Rightarrow> jstring option" where
  "match_here s =
    (case s of
       [] \<Rightarrow> None
     | c # rest \<Rightarrow>
         if c \<noteq> of_char CHR ''/'' then None
         else
           let name = takeWhile is_name_char rest;
               after_name = dropWhile is_name_char rest
           in if name = [] then None
              else if take 4 after_name \<noteq> lit ''.git'' then None
              else if dropWhile (\<lambda>x. x = (of_char CHR ''/'')) (drop 4 after_name) \<noteq> [] then None
              else Some s)"

fun regex_exec :: "jstring \<Rightarrow> jstring option" where
  "regex_exec [] = match_here []"
| "regex_exec (c # cs) =
    (case match_here (c # cs) of
       Some m \<Rightarrow> Some m
     | None \<Rightarrow> regex_exec cs)"

text \<open>
  \<^verbatim>\<open>lastIndexOf\<close> (\<open>-1\<close> when the character does not occur), \<^verbatim>\<open>substring(0, e)\<close>
  (a negative end counts as 0) and \<^verbatim>\<open>substr(1)\<close>.
\<close>

definition lastIndexOf :: "jstring \<Rightarrow> code_unit \<Rightarrow> int" where
  "lastIndexOf s c =
    (if c \<in> set s then int (length s) - 1 - int (length (takeWhile (\<lambda>x. x \<noteq> c) (rev s)))
     else - 1)"

definition substring0 :: "jstring \<Rightarrow> int \<Rightarrow> jstring" where
  "substring0 s e = take (nat e) s"

definition substr1 :: "jstring \<Rightarrow> jstring" where
  "substr1 s = drop 1 s"

text \<open>
  \<open>getRepoNameFromUri\<close>.  When the expression does not match, \<^verbatim>\<open>exec\<close> returns
  \<^verbatim>\<open>null\<close> and reading its element 0 is a type error of the engine.
\<close>

definition getRepoNameFromUri :: "jsval \<Rightarrow> error + jstring" where
  "getRepoNameFromUri remoteUri =
    (if js_typeof remoteUri \<noteq> lit ''string'' then
       Inl (TypeError (lit ''ERROR_UNEXPECTED_TYPE: String expected for gitRemoteUri''))
     else
       (case regex_exec (the_string remoteUri) of
          None \<Rightarrow> Inl (TypeError (lit ''Cannot read property '0' of null''))
        | Some m \<Rightarrow>
            let repoName = m;
                repoName = substring0 repoName (lastIndexOf repoName (of_char CHR ''.''));
                repoName = substr1 repoName
            in if repoName = [] then Inl (Error (lit ''ERROR_UNREADABLE_REPO_NAME''))
               else Inr repoName))"

section \<open>adk-helper: the completeness check as the spec words it\<close>

text \<open>
  The spec's reading of the completeness check, to compare \<open>validateAppxDemoConfig\<close>
  with: the ten required fields of the project-level configuration, what it is for
  one of them to be missing or empty, and the keys of the fields that are.
\<close>

definition spec_required_fields :: "(jstring \<times> (AppxDemoProjectConfig \<Rightarrow> jstring option)) list" where
  "spec_required_fields =
    [(lit ''demoAlias'', demoAlias), (lit ''demoConfig'', demoConfig), (lit ''demoTitle'', demoTitle),
     (lit ''demoType'', demoType), (lit ''demoVersion'', demoVersion), (lit ''gitHubUrl'', gitHubUrl),
     (lit ''gitRemoteUri'', gitRemoteUri), (lit ''partnerAlias'', partnerAlias),
     (lit ''partnerName'', partnerName), (lit ''schemaVersion'', schemaVersion)]"

definition spec_missing_or_empty :: "jstring option \<Rightarrow> bool" where
  "spec_missing_or_empty v = (v = None \<or> v = Some [])"

definition spec_missing_keys :: "AppxDemoProjectConfig \<Rightarrow> jstring list" where
  "spec_missing_keys c =
     map fst (filter (\<lambda>(k, field). spec_missing_or_empty (field c)) spec_required_fields)"

section \<open>git-helper: kinds of error\<close>

text \<open>
  Whether a call ended by throwing a \<^verbatim>\<open>TypeError\<close>.
\<close>

definition is_type_error :: "error + 'a \<Rightarrow> bool" where
  "is_type_error r = (case r of Inl (TypeError m) \<Rightarrow> True | _ \<Rightarrow> False)"

section \<open>adk-helper: series of calls\<close>

text \<open>
  The object after a series of calls of its two public methods, each call with the
  collaborators as they are when it is made.
\<close>

datatype call = ValidateDemo | DeployDemo

fun calls :: "node_path \<Rightarrow> (call \<times> 'r collaborators) list \<Rightarrow> AppxDemoProject \<Rightarrow> AppxDemoProject" where
  "calls node [] this = this"
| "calls node ((ValidateDemo, env) # cs) this = calls node cs (snd (validateDemo node env this))"
| "calls node ((DeployDemo, env) # cs) this = calls node cs (snd (deployDemo node env this))"

section \<open>Example inputs\<close>

text \<open>
  A project, a loaded sequence and stand-ins for the collaborators, on which the
  theorems below are instantiated.
\<close>

definition example_node :: node_path where
  "example_node =
    \<lparr>path_join = (\<lambda>a b. a @ lit ''/'' @ b),
     path_normalize = (\<lambda>p. p),
     path_resolve = (\<lambda>p. (lit ''/home/dev/'') @ p)\<rparr>"

definition example_config :: AppxDemoProjectConfig where
  "example_config =
    \<lparr>demoAlias = Some (lit ''MyAppxDemo''),
     demoConfig = Some (lit ''demo-config.json''),
     demoTitle = Some (lit ''My AppExchange Demo''),
     demoType = Some (lit ''ADK-SINGLE''),
     demoVersion = Some (lit ''0.0.1''),
     gitHubUrl = Some (lit ''https://github.com/my-org/my-repo''),
     gitRemoteUri = Some (lit ''https://github.com/my-org/my-repo.git''),
     partnerAlias = Some (lit ''AppyInc''),
     partnerName = Some (lit ''Appy Apps Incorporated''),
     schemaVersion = Some (lit ''0.0.1'')\<rparr>"

definition example_project :: AppxDemoProject where
  "example_project =
    \<lparr>context_path = lit ''/home/dev/my-demo'',
     context_config_project = example_config,
     context_config_local =
       Some \<lparr>devHubAlias = JStr (lit ''MyDevHub''),
             demoValidationOrgAlias = JStr (lit ''my-validation-org''),
             demoDeploymentOrgAlias = JStr (lit ''my-deployment-org'')\<rparr>,
     executionIntent = NOT_SPECIFIED,
     executingSequence = False\<rparr>"

definition example_group :: FalconCommandSequenceGroup where
  "example_group =
    \<lparr>groupId = lit ''install-packages'',
     groupName = lit ''Install Packages'',
     group_description = lit ''Installs the packages of the demo'',
     sequenceSteps =
       [\<lparr>stepName = lit ''Install Package'',
         step_description = lit ''Installs the managed package'',
         action = lit ''install-package'',
         step_options = [(lit ''packageName'', JStr (lit ''demo-package''))]\<rparr>]\<rparr>"

definition example_sequence :: FalconCommandSequence where
  "example_sequence =
    \<lparr>options = OptionsObject [(lit ''scratchDefJson'', JStr (lit ''demo-scratch-def.json''))],
     sequenceGroups = GroupArray [example_group]\<rparr>"



definition example_env :: "nat collaborators" where
  "example_env =
    \<lparr>readConfigFile = (\<lambda>rootFolder filename. Inr example_sequence),
     execute = (\<lambda>s c. case sequenceGroups s of
                          GroupArray gs \<Rightarrow> Inr (length gs)
                        | NotArray v \<Rightarrow> Inl (Error (lit ''no groups'')))\<rparr>"

definition example_validating :: AppxDemoProject where
  "example_validating = example_project\<lparr>executingSequence := True, executionIntent := VALIDATE_DEMO\<rparr>"

definition example_deploying :: AppxDemoProject where
  "example_deploying = example_project\<lparr>executingSequence := True, executionIntent := DEPLOY_DEMO\<rparr>"




definition example_core :: "AppxDemoProjectConfig \<Rightarrow> sfdx_core" where
  "example_core cfg =
    \<lparr>SfdxProject_resolve = (\<lambda>projectDirectory. Inr projectDirectory),
     resolveProjectConfig = (\<lambda>sfdxProject. Inr (Some cfg)),
     ConfigFile_retrieve = (\<lambda>rootFolder filename.
        Inr \<lparr>file_exists = True,
             toObject_appxDemo = Inr (context_config_local example_project)\<rparr>)\<rparr>"

definition example_incomplete_config :: AppxDemoProjectConfig where
  "example_incomplete_config = example_config\<lparr>demoTitle := Some [], gitHubUrl := None\<rparr>"

text \<open>
  Two shells: one in which every call ends with the same exit code, and one in which
  the calls end, in the order they are made, with the codes of a list (and with 0 once
  the list is used up).
\<close>

definition exit_shell :: "int \<Rightarrow> shell" where
  "exit_shell n = (\<lambda>hist c. \<lparr>code = n, stdout = [], stderr = []\<rparr>)"

definition scripted_shell :: "int list \<Rightarrow> shell" where
  "scripted_shell codes =
    (\<lambda>hist c. \<lparr>code = (if length hist < length codes then codes ! length hist else 0),
                stdout = [], stderr = []\<rparr>)"

section \<open>Lemmas on strings\<close>

lemma lit_eq_iff [simp]: "lit s = lit t \<longleftrightarrow> s = t"
  by (simp add: lit_def inj_map_eq_map inj_on_def)

lemma lit_Nil [simp]: "lit [] = []"
  by (simp add: lit_def)

lemma lit_eq_Nil [simp]: "lit s = [] \<longleftrightarrow> s = []"
  by (simp add: lit_def)

lemma lit_append [simp]: "lit s @ lit t = lit (s @ t)"
  by (simp add: lit_def)

lemma lit_append_left [simp]: "lit s @ lit t @ x = lit (s @ t) @ x"
  by (simp add: lit_def)

section \<open>Lemmas on the sequence assembler\<close>

lemma js_get_js_set:
  "js_get (js_set obj k v) k' = (if k' = k then v else js_get obj k')"
  by (simp add: js_get_def js_set_def update_conv')

lemma typeof_boolean: "(js_typeof v = lit ''boolean'') = (\<exists>b. v = JBool b)"
  by (cases v) simp_all

lemma coerce_object:
  assumes "options s = OptionsObject opts"
  shows "coerceRebuildValidationOrg s =
    Inr (s\<lparr>options :=
             OptionsObject
               (if \<exists>v. js_get opts (lit ''rebuildValidationOrg'') = JBool v then opts
                else js_set opts (lit ''rebuildValidationOrg'') (JBool True))\<rparr>)"
proof -
  have "s\<lparr>options := OptionsObject opts\<rparr> = s"
    using assms by (cases s) simp
  then show ?thesis
    using assms
    by (simp add: coerceRebuildValidationOrg_def options_get_def options_set_def typeof_boolean)
qed

lemma coerce_not_object:
  assumes "options s = OptionsMissing \<or> options s = OptionsPrimitive"
  shows "\<exists>m. coerceRebuildValidationOrg s = Inl (TypeError m)"
  using assms
  by (auto simp add: coerceRebuildValidationOrg_def options_get_def options_set_def
        cannot_read_property_def)

lemma coerced_value:
  "js_get (if \<exists>v. js_get opts (lit ''rebuildValidationOrg'') = JBool v then opts
           else js_set opts (lit ''rebuildValidationOrg'') (JBool True))
      (lit ''rebuildValidationOrg'')
     = JBool (js_get opts (lit ''rebuildValidationOrg'') \<noteq> JBool False)"
  by (cases "js_get opts (lit ''rebuildValidationOrg'')") (auto simp add: js_get_js_set)

lemma coerced_other_key:
  "k \<noteq> lit ''rebuildValidationOrg'' \<Longrightarrow>
   js_get (if \<exists>v. js_get opts (lit ''rebuildValidationOrg'') = JBool v then opts
           else js_set opts (lit ''rebuildValidationOrg'') (JBool True)) k
     = js_get opts k"
  by (simp add: js_get_js_set)

lemma insertRebuildGroup_object:
  assumes o: "options s = OptionsObject opts" and g: "sequenceGroups s = GroupArray gs"
  shows "insertRebuildGroup i ctx s =
     Inr (s\<lparr>options :=
               OptionsObject
                 (if \<exists>v. js_get opts (lit ''rebuildValidationOrg'') = JBool v then opts
                  else js_set opts (lit ''rebuildValidationOrg'') (JBool True)),
             sequenceGroups :=
               GroupArray
                 (if i = VALIDATE_DEMO \<and> js_get opts (lit ''rebuildValidationOrg'') \<noteq> JBool False
                  then rebuildGroupLiteral (template (targetOrgAlias ctx))
                         (template (js_get opts (lit ''scratchDefJson''))) # gs
                  else gs)\<rparr>)"
proof -
  define opts' where "opts' =
     (if \<exists>v. js_get opts (lit ''rebuildValidationOrg'') = JBool v then opts
      else js_set opts (lit ''rebuildValidationOrg'') (JBool True))"
  define s' where "s' = s\<lparr>options := OptionsObject opts'\<rparr>"
  have c: "coerceRebuildValidationOrg s = Inr s'"
    unfolding s'_def opts'_def by (rule coerce_object [OF o])
  have o': "options s' = OptionsObject opts'" and g': "sequenceGroups s' = GroupArray gs"
    by (simp_all add: s'_def g)
  have r: "js_get opts' (lit ''rebuildValidationOrg'')
      = JBool (js_get opts (lit ''rebuildValidationOrg'') \<noteq> JBool False)"
    unfolding opts'_def by (rule coerced_value)
  have d: "js_get opts' (lit ''scratchDefJson'') = js_get opts (lit ''scratchDefJson'')"
    unfolding opts'_def by (rule coerced_other_key) simp
  have k: "s'\<lparr>sequenceGroups := GroupArray gs\<rparr> = s'"
    using g' by (cases s') simp
  have "insertRebuildGroup i ctx s =
     Inr (s'\<lparr>sequenceGroups :=
               GroupArray
                 (if i = VALIDATE_DEMO \<and> js_get opts (lit ''rebuildValidationOrg'') \<noteq> JBool False
                  then rebuildGroupLiteral (template (targetOrgAlias ctx))
                         (template (js_get opts (lit ''scratchDefJson''))) # gs
                  else gs)\<rparr>)"
    using k
    by (simp add: insertRebuildGroup_def c o' g' options_get_def r d
          rebuildScratchOrgSequenceGroup_def unshift_def)
  then show ?thesis
    by (simp add: s'_def opts'_def)
qed

lemma insertRebuildGroup_not_object:
  assumes "options s = OptionsMissing \<or> options s = OptionsPrimitive"
  shows "\<exists>m. insertRebuildGroup i ctx s = Inl (TypeError m)"
  using coerce_not_object [OF assms] by (auto simp add: insertRebuildGroup_def)

lemma validate_array:
  "sequenceGroups s = GroupArray gs \<Longrightarrow> gs \<noteq> [] \<Longrightarrow> validateDemoBuildConfig s = Inr True"
  by (simp add: validateDemoBuildConfig_def)

lemma getDefault_update [simp]:
  "getDefaultSequenceContext node (this\<lparr>executingSequence := a, executionIntent := b\<rparr>)
    = getDefaultSequenceContext node this"
  by (simp add: getDefaultSequenceContext_def split: option.splits)

lemma getDefault_local:
  "getDefaultSequenceContext node this = Inr ctx0 \<Longrightarrow> \<exists>local. context_config_local this = Some local"
  by (simp add: getDefaultSequenceContext_def split: option.splits)

lemma getDefault_no_local:
  "context_config_local this = None \<Longrightarrow>
     getDefaultSequenceContext node this = Inl (cannot_read_property (lit ''devHubAlias''))"
  by (simp add: getDefaultSequenceContext_def)

lemma loadAndTransform_update [simp]:
  "loadAndTransform env (this\<lparr>executingSequence := a\<rparr>) ctx = loadAndTransform env this ctx"
  by (simp add: loadAndTransform_def cong: sum.case_cong)


lemma assemble_intent_set:
  assumes "executionIntent this \<noteq> NOT_SPECIFIED"
  shows "deployDemo_assemble node env this =
    (case getDefaultSequenceContext node this of
       Inl e \<Rightarrow> Inl e
     | Inr defaultContext \<Rightarrow>
         (case selectTarget this defaultContext of
            Inl e \<Rightarrow> Inl e
          | Inr sequenceContext \<Rightarrow> loadAndTransform env this sequenceContext),
     this)"
  using assms by (simp add: deployDemo_assemble_def split: sum.splits)

lemma deployDemo_assemble_fresh:
  assumes "executionIntent this = NOT_SPECIFIED" "\<not> executingSequence this"
  shows "deployDemo_assemble node env this =
     deployDemo_assemble node env (this\<lparr>executingSequence := True, executionIntent := DEPLOY_DEMO\<rparr>)"
  using assms by (simp add: deployDemo_assemble_def setIntent_def)

lemma deployDemo_assemble_running:
  assumes "executionIntent this = NOT_SPECIFIED" "executingSequence this"
  shows "deployDemo_assemble node env this =
     (Inl (Error (lit ''ERROR_SEQUENCE_RUNNING: There is already another sequence running.'')), this)"
  using assms by (simp add: deployDemo_assemble_def setIntent_def)

lemma assemble_validate:
  assumes "executionIntent this = VALIDATE_DEMO"
    and "context_config_local this = Some local"
    and "getDefaultSequenceContext node this = Inr ctx0"
  shows "deployDemo_assemble node env this =
    (loadAndTransform env this
       (ctx0\<lparr>targetOrgAlias := demoValidationOrgAlias local, targetIsScratchOrg := JBool True\<rparr>),
     this)"
  using assms by (simp add: assemble_intent_set selectTarget_def)

lemma assemble_deploy:
  assumes "executionIntent this = DEPLOY_DEMO"
    and "context_config_local this = Some local"
    and "getDefaultSequenceContext node this = Inr ctx0"
  shows "deployDemo_assemble node env this =
    (loadAndTransform env this
       (ctx0\<lparr>targetOrgAlias := demoDeploymentOrgAlias local, targetIsScratchOrg := JBool False\<rparr>),
     this)"
  using assms by (simp add: assemble_intent_set selectTarget_def)


lemma assemble_no_local:
  assumes "context_config_local this = None"
    and "executionIntent this \<noteq> NOT_SPECIFIED \<or> \<not> executingSequence this"
  shows "fst (deployDemo_assemble node env this) = Inl (cannot_read_property (lit ''devHubAlias''))"
proof (cases "executionIntent this = NOT_SPECIFIED")
  case False
  then show ?thesis
    using assms by (simp add: assemble_intent_set getDefault_no_local)
next
  case True
  with assms have f: "\<not> executingSequence this" by simp
  show ?thesis
    using assms(1)
    by (simp add: deployDemo_assemble_fresh [OF True f] assemble_intent_set getDefault_no_local)
qed

lemma loadAndTransform_loaded:
  assumes "readConfigFile env (configPath ctx) (demoConfig (context_config_project this)) = Inr s"
    and "sequenceGroups s = GroupArray gs" and "gs \<noteq> []"
  shows "loadAndTransform env this ctx =
    (case insertRebuildGroup (executionIntent this) ctx s of
       Inl e \<Rightarrow> Inl e
     | Inr assembled \<Rightarrow> Inr (assembled, ctx))"
  using assms by (simp add: loadAndTransform_def validate_array)

lemma assemble_without_options:
  assumes "executionIntent this = VALIDATE_DEMO \<or> executionIntent this = DEPLOY_DEMO"
    and "getDefaultSequenceContext node this = Inr ctx0"
    and "readConfigFile env (configPath ctx0) (demoConfig (context_config_project this)) = Inr s"
    and "sequenceGroups s = GroupArray gs" and "gs \<noteq> []"
    and "options s = OptionsMissing \<or> options s = OptionsPrimitive"
  shows "\<exists>m. deployDemo_assemble node env this = (Inl (TypeError m), this)"
proof -
  from getDefault_local [OF assms(2)] obtain local where l: "context_config_local this = Some local"
    by blast
  from insertRebuildGroup_not_object [OF assms(6)]
  have t: "\<exists>m. insertRebuildGroup i c s = Inl (TypeError m)" for i c
    by blast
  from assms(1) show ?thesis
  proof
    assume i: "executionIntent this = VALIDATE_DEMO"
    let ?c = "ctx0\<lparr>targetOrgAlias := demoValidationOrgAlias local, targetIsScratchOrg := JBool True\<rparr>"
    have "loadAndTransform env this ?c =
      (case insertRebuildGroup (executionIntent this) ?c s of
         Inl e \<Rightarrow> Inl e | Inr assembled \<Rightarrow> Inr (assembled, ?c))"
      by (rule loadAndTransform_loaded [OF _ assms(4,5)]) (simp add: assms(3))
    with t [of "executionIntent this" ?c] show ?thesis
      by (auto simp add: assemble_validate [OF i l assms(2)])
  next
    assume i: "executionIntent this = DEPLOY_DEMO"
    let ?c = "ctx0\<lparr>targetOrgAlias := demoDeploymentOrgAlias local, targetIsScratchOrg := JBool False\<rparr>"
    have "loadAndTransform env this ?c =
      (case insertRebuildGroup (executionIntent this) ?c s of
         Inl e \<Rightarrow> Inl e | Inr assembled \<Rightarrow> Inr (assembled, ?c))"
      by (rule loadAndTransform_loaded [OF _ assms(4,5)]) (simp add: assms(3))
    with t [of "executionIntent this" ?c] show ?thesis
      by (auto simp add: assemble_deploy [OF i l assms(2)])
  qed
qed


section \<open>Lemmas on the state of the object\<close>

lemma deployDemo_state:
  "snd (deployDemo node env this) =
     (if executionIntent this = NOT_SPECIFIED \<and> \<not> executingSequence this
      then this\<lparr>executingSequence := True, executionIntent := DEPLOY_DEMO\<rparr> else this)"
proof -
  have st: "snd (deployDemo node env t) = snd (deployDemo_assemble node env t)" for t
    by (simp add: deployDemo_def split: prod.splits sum.splits)
  show ?thesis
  proof (cases "executionIntent this = NOT_SPECIFIED")
    case False
    then show ?thesis by (simp add: st assemble_intent_set)
  next
    case True
    show ?thesis
    proof (cases "executingSequence this")
      case True
      with \<open>executionIntent this = NOT_SPECIFIED\<close> show ?thesis
        by (simp add: st deployDemo_assemble_running)
    next
      case False
      with \<open>executionIntent this = NOT_SPECIFIED\<close> show ?thesis
        by (simp add: st deployDemo_assemble_fresh assemble_intent_set)
    qed
  qed
qed

lemma validateDemo_running:
  "executingSequence this \<Longrightarrow>
     validateDemo node env this =
       (Inl (Error (lit ''ERROR_SEQUENCE_RUNNING: There is already another sequence running.'')), this)"
  by (simp add: validateDemo_def setIntent_def)

lemma validateDemo_state:
  "snd (validateDemo node env this) =
     (if executingSequence this then this
      else this\<lparr>executingSequence := True, executionIntent := VALIDATE_DEMO\<rparr>)"
  by (simp add: validateDemo_def setIntent_def deployDemo_state)

lemma calls_running:
  "executingSequence this \<Longrightarrow> executingSequence (calls node cs this)"
proof (induction cs arbitrary: this)
  case Nil
  then show ?case by simp
next
  case (Cons c cs)
  obtain k env where c: "c = (k, env)" by (cases c)
  show ?case
    using Cons.prems by (cases k) (simp_all add: c Cons.IH deployDemo_state validateDemo_state)
qed

lemma calls_intent:
  "executingSequence this \<Longrightarrow> executionIntent this \<noteq> NOT_SPECIFIED \<Longrightarrow>
     calls node cs this = this"
proof (induction cs arbitrary: this)
  case Nil
  then show ?case by simp
next
  case (Cons c cs)
  obtain k env where c: "c = (k, env)" by (cases c)
  show ?case
    using Cons.prems by (cases k) (simp_all add: c Cons.IH deployDemo_state validateDemo_state)
qed

lemma assemble_fst_same:
  assumes i: "executionIntent t = executionIntent t'" and n: "executionIntent t \<noteq> NOT_SPECIFIED"
    and p: "context_path t = context_path t'"
    and l: "context_config_local t = context_config_local t'"
    and c: "context_config_project t = context_config_project t'"
  shows "fst (deployDemo_assemble node env t) = fst (deployDemo_assemble node env t')"
proof -
  have n': "executionIntent t' \<noteq> NOT_SPECIFIED" using i n by simp
  have a: "selectTarget t = selectTarget t'"
    by (cases "executionIntent t'") (simp_all add: fun_eq_iff selectTarget_def i l)
  have b: "getDefaultSequenceContext node t = getDefaultSequenceContext node t'"
    by (simp add: getDefaultSequenceContext_def p l split: option.splits)
  have d: "loadAndTransform env t = loadAndTransform env t'"
    unfolding fun_eq_iff loadAndTransform_def i c by simp
  show ?thesis
    by (simp only: assemble_intent_set [OF n] assemble_intent_set [OF n'] a b d fst_conv)
qed

lemma deployDemo_fst_same:
  assumes "executionIntent t = executionIntent t'" "executionIntent t \<noteq> NOT_SPECIFIED"
    "context_path t = context_path t'" "context_config_local t = context_config_local t'"
    "context_config_project t = context_config_project t'"
  shows "fst (deployDemo node env t) = fst (deployDemo node env t')"
proof -
  have "fst (deployDemo node env x) =
      (case fst (deployDemo_assemble node env x) of
         Inl e \<Rightarrow> Inl e
       | Inr (q, c) \<Rightarrow> execute env q c)" for x
    by (simp add: deployDemo_def split: prod.splits sum.splits)
  then show ?thesis
    by (simp only: assemble_fst_same [OF assms])
qed

lemma deployDemo_skips_guard:
  assumes "executionIntent this \<noteq> NOT_SPECIFIED"
  shows "deployDemo node env this =
          (fst (deployDemo node env (this\<lparr>executingSequence := False\<rparr>)), this)"
proof -
  have "fst (deployDemo node env this) = fst (deployDemo node env (this\<lparr>executingSequence := False\<rparr>))"
    by (rule deployDemo_fst_same) (simp_all add: assms)
  moreover have "snd (deployDemo node env this) = this"
    by (simp add: deployDemo_state assms)
  ultimately show ?thesis by (simp add: prod_eq_iff)
qed

lemma deployDemo_again_validate:
  assumes "executionIntent this = VALIDATE_DEMO"
  shows "fst (deployDemo node env this) =
          fst (validateDemo node env
                 (this\<lparr>executingSequence := False, executionIntent := NOT_SPECIFIED\<rparr>))"
proof -
  have "validateDemo node env (this\<lparr>executingSequence := False, executionIntent := NOT_SPECIFIED\<rparr>)
      = deployDemo node env (this\<lparr>executingSequence := True, executionIntent := VALIDATE_DEMO\<rparr>)"
    by (simp add: validateDemo_def setIntent_def)
  moreover have "fst (deployDemo node env this) =
      fst (deployDemo node env (this\<lparr>executingSequence := True, executionIntent := VALIDATE_DEMO\<rparr>))"
    by (rule deployDemo_fst_same) (simp_all add: assms)
  ultimately show ?thesis by simp
qed

lemma deployDemo_again_deploy:
  assumes "executionIntent this = DEPLOY_DEMO"
  shows "fst (deployDemo node env this) =
          fst (deployDemo node env
                 (this\<lparr>executingSequence := False, executionIntent := NOT_SPECIFIED\<rparr>))"
proof -
  have "deployDemo_assemble node env (this\<lparr>executingSequence := False, executionIntent := NOT_SPECIFIED\<rparr>)
      = deployDemo_assemble node env (this\<lparr>executingSequence := True, executionIntent := DEPLOY_DEMO\<rparr>)"
    using deployDemo_assemble_fresh
            [of "this\<lparr>executingSequence := False, executionIntent := NOT_SPECIFIED\<rparr>" node env]
    by simp
  then have "deployDemo node env (this\<lparr>executingSequence := False, executionIntent := NOT_SPECIFIED\<rparr>)
      = deployDemo node env (this\<lparr>executingSequence := True, executionIntent := DEPLOY_DEMO\<rparr>)"
    by (simp only: deployDemo_def)
  moreover have "fst (deployDemo node env this) =
      fst (deployDemo node env (this\<lparr>executingSequence := True, executionIntent := DEPLOY_DEMO\<rparr>))"
    by (rule deployDemo_fst_same) (simp_all add: assms)
  ultimately show ?thesis by simp
qed

section \<open>Lemmas on the example inputs\<close>

lemma example_load:
  "readConfigFile example_env p f = Inr example_sequence"
  by (simp add: example_env_def)

lemma example_default:
  "getDefaultSequenceContext example_node example_project =
     Inr \<lparr>ctx_devHubAlias = JStr (lit ''MyDevHub''),
          targetOrgAlias = JNull,
          targetIsScratchOrg = JNull,
          projectPath = lit ''/home/dev/my-demo'',
          configPath = lit ''/home/dev/my-demo/demo-config'',
          mdapiSourcePath = lit ''/home/dev/my-demo/mdapi-source'',
          dataPath = lit ''/home/dev/my-demo/demo-data'',
          logLevel = lit ''error'',
          sequenceObserver = JNull\<rparr>"
  by (simp add: getDefaultSequenceContext_def example_project_def example_node_def)

lemma example_local:
  "context_config_local example_project =
     Some \<lparr>devHubAlias = JStr (lit ''MyDevHub''),
           demoValidationOrgAlias = JStr (lit ''my-validation-org''),
           demoDeploymentOrgAlias = JStr (lit ''my-deployment-org'')\<rparr>"
  by (simp add: example_project_def)

lemma example_states [simp]:
  "context_config_local example_validating = context_config_local example_project"
  "context_config_local example_deploying = context_config_local example_project"
  "getDefaultSequenceContext node example_validating = getDefaultSequenceContext node example_project"
  "getDefaultSequenceContext node example_deploying = getDefaultSequenceContext node example_project"
  "executionIntent example_validating = VALIDATE_DEMO"
  "executionIntent example_deploying = DEPLOY_DEMO"
  "executionIntent example_project = NOT_SPECIFIED"
  "executingSequence example_validating"
  "executingSequence example_deploying"
  "\<not> executingSequence example_project"
  by (simp_all add: example_validating_def example_deploying_def example_project_def
        getDefaultSequenceContext_def)

lemma example_options:
  "options example_sequence = OptionsObject [(lit ''scratchDefJson'', JStr (lit ''demo-scratch-def.json''))]"
  "sequenceGroups example_sequence = GroupArray [example_group]"
  by (simp_all add: example_sequence_def)

lemma example_transform:
  "insertRebuildGroup i c example_sequence =
     Inr \<lparr>options =
            OptionsObject [(lit ''scratchDefJson'', JStr (lit ''demo-scratch-def.json'')),
                           (lit ''rebuildValidationOrg'', JBool True)],
          sequenceGroups =
            GroupArray (if i = VALIDATE_DEMO
                        then [rebuildGroupLiteral (template (targetOrgAlias c))
                                (lit ''demo-scratch-def.json''), example_group]
                        else [example_group])\<rparr>"
  using insertRebuildGroup_object [OF example_options, of i c]
  by (simp add: js_get_def js_set_def example_sequence_def)

lemma example_loadAndTransform:
  "loadAndTransform example_env t c =
     Inr (\<lparr>options =
            OptionsObject [(lit ''scratchDefJson'', JStr (lit ''demo-scratch-def.json'')),
                           (lit ''rebuildValidationOrg'', JBool True)],
          sequenceGroups =
            GroupArray (if executionIntent t = VALIDATE_DEMO
                        then [rebuildGroupLiteral (template (targetOrgAlias c))
                                (lit ''demo-scratch-def.json''), example_group]
                        else [example_group])\<rparr>, c)"
  using loadAndTransform_loaded [of example_env c t example_sequence "[example_group]"]
  by (simp add: example_load example_options example_transform)

lemma example_validate_run:
  "validateDemo example_node example_env example_project = (Inr 2, example_validating)"
proof -
  have l: "context_config_local example_validating = Some \<lparr>devHubAlias = JStr (lit ''MyDevHub''),
           demoValidationOrgAlias = JStr (lit ''my-validation-org''),
           demoDeploymentOrgAlias = JStr (lit ''my-deployment-org'')\<rparr>"
    by (simp add: example_local)
  have d: "getDefaultSequenceContext example_node example_validating
            = getDefaultSequenceContext example_node example_project"
    by simp
  have e: "execute example_env s c =
             (case sequenceGroups s of NotArray v \<Rightarrow> Inl (Error (lit ''no groups''))
              | GroupArray gs \<Rightarrow> Inr (length gs))" for s c
    by (simp add: example_env_def)
  have "deployDemo example_node example_env example_validating = (Inr 2, example_validating)"
    unfolding deployDemo_def
      assemble_validate [OF example_states(5) l d [unfolded example_default], of example_env]
      example_loadAndTransform
    by (simp add: e)
  moreover have "setIntent VALIDATE_DEMO example_project = (Inr (), example_validating)"
    by (simp add: setIntent_def example_validating_def example_project_def)
  ultimately show ?thesis
    by (simp add: validateDemo_def)
qed

lemma example_deploy_run:
  "deployDemo example_node example_env example_project = (Inr 1, example_deploying)"
proof -
  have l: "context_config_local example_deploying = Some \<lparr>devHubAlias = JStr (lit ''MyDevHub''),
           demoValidationOrgAlias = JStr (lit ''my-validation-org''),
           demoDeploymentOrgAlias = JStr (lit ''my-deployment-org'')\<rparr>"
    by (simp add: example_local)
  have d: "getDefaultSequenceContext example_node example_deploying
            = getDefaultSequenceContext example_node example_project"
    by simp
  have e: "execute example_env s c =
             (case sequenceGroups s of NotArray v \<Rightarrow> Inl (Error (lit ''no groups''))
              | GroupArray gs \<Rightarrow> Inr (length gs))" for s c
    by (simp add: example_env_def)
  have "deployDemo example_node example_env example_deploying = (Inr 1, example_deploying)"
    unfolding deployDemo_def
      assemble_deploy [OF example_states(6) l d [unfolded example_default], of example_env]
      example_loadAndTransform
    by (simp add: e)
  moreover have "deployDemo_assemble example_node example_env example_project
      = deployDemo_assemble example_node example_env example_deploying"
    using deployDemo_assemble_fresh [of example_project example_node example_env]
    by (simp add: example_deploying_def)
  ultimately show ?thesis
    by (simp add: deployDemo_def)
qed


section \<open>Lemmas on the completeness check\<close>

lemma falsy_spec: "falsy v = spec_missing_or_empty v"
  by (cases v) (simp_all add: falsy_def spec_missing_or_empty_def)

lemma push_if_append: "push_if b k ks = ks @ (if b then [k] else [])"
  by (simp add: push_if_def)

lemma keys_filter_Cons:
  "map fst (filter (\<lambda>(k, field). P (field c)) ((k0, f0) # fs)) =
     (if P (f0 c) then [k0] else []) @ map fst (filter (\<lambda>(k, field). P (field c)) fs)"
  by simp

lemma invalidKeys_spec: "invalidKeys c = spec_missing_keys c"
  unfolding invalidKeys_def spec_missing_keys_def spec_required_fields_def Let_def
    push_if_append keys_filter_Cons falsy_spec
  by simp

lemma distinct_required: "distinct (map fst spec_required_fields)"
  by (simp add: spec_required_fields_def)

lemma invalidKeys_distinct: "distinct (invalidKeys c)"
  unfolding invalidKeys_spec spec_missing_keys_def
  by (rule distinct_map_filter) (rule distinct_required)

section \<open>Lemmas on the git helper\<close>

lemma run_fatal_eq:
  "run_fatal sh c h = (if code (sh h c) \<noteq> 0 then Inl (Error (stderr (sh h c))) else Inr (sh h c), h @ [c])"
  by (simp add: run_fatal_def Let_def)

lemma createAndEnter_eq:
  "createAndEnter sh t h =
    (if code (sh h (Mkdir_p t)) \<noteq> 0 then (Inl (Error (lit ''ERROR_INVALID_TARGET_DIR'')), h @ [Mkdir_p t])
     else if code (sh (h @ [Mkdir_p t]) (Cd t)) \<noteq> 0
       then (Inl (Error (lit ''ERROR_NO_TARGET_DIR'')), h @ [Mkdir_p t, Cd t])
     else (Inr (), h @ [Mkdir_p t, Cd t]))"
  by (simp add: createAndEnter_def run_fatal_eq)

lemma enterTarget_eq:
  "enterTarget sh t h =
    (if code (sh h (Cd t)) \<noteq> 0 then createAndEnter sh t (h @ [Cd t])
     else if code (sh (h @ [Cd t]) Pwd) \<noteq> 0 then createAndEnter sh t (h @ [Cd t, Pwd])
     else (Inr (), h @ [Cd t, Pwd]))"
  by (simp add: enterTarget_def run_fatal_eq)

lemma gitClone_strings:
  assumes "trim dir \<noteq> []"
  shows "gitClone node sh (JStr uri) (JStr dir) hist =
    (case enterTarget sh (path_resolve node (path_normalize node dir)) hist of
       (Inl e, h) \<Rightarrow> (Inl e, h)
     | (Inr _, h) \<Rightarrow>
         (if code (sh h (Exec (lit ''git clone '' @ uri))) \<noteq> 0
          then Inl (Error (lit ''Destination path '' @ [39]
                           @ path_resolve node (path_normalize node dir) @ [39]
                           @ lit '' already exists and is not an empty directory.''))
          else Inr (),
          h @ [Exec (lit ''git clone '' @ uri)]))"
  using assms by (simp add: gitClone_def Let_def run_fatal_eq split: prod.splits sum.splits)

lemma trim_Nil_iff: "trim s = [] \<longleftrightarrow> (\<forall>c \<in> set s. is_space c)"
proof -
  have "(\<forall>c \<in> set (dropWhile is_space s). is_space c) \<longleftrightarrow> (\<forall>c \<in> set s. is_space c)"
  proof
    assume a: "\<forall>c \<in> set (dropWhile is_space s). is_space c"
    have "dropWhile is_space s = []"
    proof (rule ccontr)
      assume n: "dropWhile is_space s \<noteq> []"
      then have "\<not> is_space (hd (dropWhile is_space s))" by (rule hd_dropWhile)
      moreover from n have "hd (dropWhile is_space s) \<in> set (dropWhile is_space s)" by simp
      ultimately show False using a by blast
    qed
    then show "\<forall>c \<in> set s. is_space c" by (simp add: dropWhile_eq_Nil_conv)
  next
    assume "\<forall>c \<in> set s. is_space c"
    then show "\<forall>c \<in> set (dropWhile is_space s). is_space c"
      by (auto dest: set_dropWhileD)
  qed
  then show ?thesis
    by (simp add: trim_def dropWhile_eq_Nil_conv)
qed

lemma trim_example: "trim (lit ''my-demo'') = lit ''my-demo''"
  by (simp add: trim_def is_space_def lit_def)

lemma scripted_code: "code (scripted_shell cs h c) = (if length h < length cs then cs ! length h else 0)"
  by (simp add: scripted_shell_def)

lemma match_here_Some: "match_here s = Some m \<Longrightarrow> m = s"
  by (auto simp add: match_here_def Let_def split: list.splits if_splits)

lemma regex_exec_match: "regex_exec s = Some m \<Longrightarrow> match_here m = Some m"
proof (induction s)
  case Nil
  then show ?case by (simp add: match_here_def)
next
  case (Cons c cs)
  show ?case
  proof (cases "match_here (c # cs)")
    case None
    with Cons show ?thesis by simp
  next
    case (Some m')
    with Cons.prems have "m' = m" by simp
    with Some match_here_Some [OF Some] show ?thesis by simp
  qed
qed

lemma match_here_shape:
  assumes "match_here m = Some m"
  shows "\<exists>name slashes. m = of_char CHR ''/'' # name @ lit ''.git'' @ slashes \<and> name \<noteq> []
           \<and> (\<forall>c \<in> set name. is_name_char c) \<and> (\<forall>c \<in> set slashes. c = of_char CHR ''/'')"
proof -
  from assms obtain rest where m: "m = of_char CHR ''/'' # rest"
    by (auto simp add: match_here_def split: list.splits if_splits)
  let ?name = "takeWhile is_name_char rest"
  let ?after = "dropWhile is_name_char rest"
  from assms m have n: "?name \<noteq> []" and g: "take 4 ?after = lit ''.git''"
    and sl: "dropWhile (\<lambda>x. x = of_char CHR ''/'') (drop 4 ?after) = []"
    by (auto simp add: match_here_def Let_def split: if_splits)
  have "rest = ?name @ ?after" by simp
  moreover have "?after = take 4 ?after @ drop 4 ?after" by simp
  ultimately have "rest = ?name @ lit ''.git'' @ drop 4 ?after" using g by metis
  moreover have "\<forall>c \<in> set ?name. is_name_char c" by (auto dest: set_takeWhileD)
  moreover have "\<forall>c \<in> set (drop 4 ?after). c = of_char CHR ''/''"
    using sl by (simp add: dropWhile_eq_Nil_conv)
  ultimately show ?thesis using m n by blast
qed

lemma name_char_not_dot: "is_name_char c \<Longrightarrow> c \<noteq> of_char CHR ''.''"
  by (auto simp add: is_name_char_def is_word_char_def)

lemma repo_name_of_match:
  assumes name: "name \<noteq> []" and nm: "\<forall>c \<in> set name. is_name_char c"
    and sl: "\<forall>c \<in> set slashes. c = of_char CHR ''/''"
  shows "substr1 (substring0 (of_char CHR ''/'' # name @ lit ''.git'' @ slashes)
                    (lastIndexOf (of_char CHR ''/'' # name @ lit ''.git'' @ slashes)
                       (of_char CHR ''.''))) = name"
proof -
  let ?m = "of_char CHR ''/'' # name @ lit ''.git'' @ slashes"
  have r: "rev ?m = rev slashes @ (lit ''tig.'' @ rev name @ lit ''/'')"
    by (simp add: lit_def)
  have "takeWhile (\<lambda>x. x \<noteq> of_char CHR ''.'') (rev slashes @ (lit ''tig.'' @ rev name @ lit ''/''))
      = rev slashes @ takeWhile (\<lambda>x. x \<noteq> of_char CHR ''.'') (lit ''tig.'' @ rev name @ lit ''/'')"
    by (rule takeWhile_append2) (use sl in auto)
  then have "takeWhile (\<lambda>x. x \<noteq> of_char CHR ''.'') (rev ?m) = rev slashes @ lit ''tig''"
    unfolding r by (simp add: lit_def)
  then have "lastIndexOf ?m (of_char CHR ''.'') = int (length name) + 1"
    by (simp add: lastIndexOf_def lit_def)
  then show ?thesis
    by (simp add: substring0_def substr1_def nat_add_distrib)
qed

lemma getRepoNameFromUri_total:
  "getRepoNameFromUri v \<noteq> Inl (Error (lit ''ERROR_UNREADABLE_REPO_NAME''))"
proof (cases "js_typeof v = lit ''string''")
  case False
  then show ?thesis by (simp add: getRepoNameFromUri_def)
next
  case True
  show ?thesis
  proof (cases "regex_exec (the_string v)")
    case None
    with True show ?thesis by (simp add: getRepoNameFromUri_def)
  next
    case (Some m)
    from match_here_shape [OF regex_exec_match [OF Some]]
    obtain name slashes where m: "m = of_char CHR ''/'' # name @ lit ''.git'' @ slashes"
      and n: "name \<noteq> []" and nm: "\<forall>c \<in> set name. is_name_char c"
      and sl: "\<forall>c \<in> set slashes. c = of_char CHR ''/''"
      by blast
    have "getRepoNameFromUri v = Inr name"
      using True Some n repo_name_of_match [OF n nm sl]
      by (simp add: getRepoNameFromUri_def Let_def m)
    then show ?thesis by simp
  qed
qed

section \<open>The execution intent controller\<close>

text \<open>
  Claim C5.  While the in-progress flag \<open>executingSequence\<close> is true, \<open>setIntent\<close>
  fails with \<open>ERROR_SEQUENCE_RUNNING\<close> whichever intent is requested (and leaves the
  object as it was); while the flag is false, \<open>setIntent\<close> sets the flag and the intent
  together: the object it leaves has the flag true and the requested intent.
\<close>

theorem setIntent_guard:
  "(executingSequence this \<longrightarrow>
      setIntent intent this =
        (Inl (Error (lit ''ERROR_SEQUENCE_RUNNING: There is already another sequence running.'')), this))
   \<and> (\<not> executingSequence this \<longrightarrow>
      snd (setIntent intent this) = this\<lparr>executingSequence := True, executionIntent := intent\<rparr>)"
  by (cases intent) (simp_all add: setIntent_def)

theorem setIntent_guard_witness:
  "executingSequence example_validating
   \<and> setIntent DEPLOY_DEMO example_validating =
        (Inl (Error (lit ''ERROR_SEQUENCE_RUNNING: There is already another sequence running.'')),
         example_validating)
   \<and> \<not> executingSequence example_project
   \<and> snd (setIntent VALIDATE_DEMO example_project) = example_validating"
  using setIntent_guard [of example_validating DEPLOY_DEMO]
        setIntent_guard [of example_project VALIDATE_DEMO]
  by (simp add: example_validating_def example_project_def)

section \<open>The sequence assembler\<close>







section \<open>The in-progress flag\<close>

text \<open>
  Claim C10.  The flag \<open>executingSequence\<close> is never cleared: after any series of
  calls of \<open>validateDemo\<close> and \<open>deployDemo\<close> on an object whose flag is set, the flag
  is set; on a fresh object the first call sets the flag and the intent of that call,
  and every later call leaves both.  \<open>setIntent\<close> writes the flag and the intent
  before it rejects an intent, so a rejected intent leaves them set.  On an object
  whose flag is set, \<open>validateDemo\<close> fails with \<open>ERROR_SEQUENCE_RUNNING\<close>, while
  \<open>deployDemo\<close> with an intent that is set does not consult the flag: it leaves the
  object as it is and gives what the run under the active intent gives, which is what
  \<open>validateDemo\<close> (for \<open>VALIDATE_DEMO\<close>) or \<open>deployDemo\<close> (for \<open>DEPLOY_DEMO\<close>) gives on
  the same object when it is fresh.
\<close>

theorem executingSequence_monotone:
  "(executingSequence this \<longrightarrow> executingSequence (calls node cs this))
   \<and> (\<not> executingSequence this \<and> executionIntent this = NOT_SPECIFIED \<longrightarrow>
        calls node ((k, env) # cs) this =
          this\<lparr>executingSequence := True,
               executionIntent := (case k of ValidateDemo \<Rightarrow> VALIDATE_DEMO
                                           | DeployDemo \<Rightarrow> DEPLOY_DEMO)\<rparr>)
   \<and> (\<not> executingSequence this \<and> intent \<noteq> DEPLOY_DEMO \<and> intent \<noteq> VALIDATE_DEMO \<longrightarrow>
        (\<exists>e. fst (setIntent intent this) = Inl e)
        \<and> snd (setIntent intent this) =
            this\<lparr>executingSequence := True, executionIntent := intent\<rparr>)
   \<and> (executingSequence this \<longrightarrow>
        validateDemo node env this =
          (Inl (Error (lit ''ERROR_SEQUENCE_RUNNING: There is already another sequence running.'')), this))
   \<and> (executingSequence this \<and> executionIntent this \<noteq> NOT_SPECIFIED \<longrightarrow>
        deployDemo node env this =
          (fst (deployDemo node env (this\<lparr>executingSequence := False\<rparr>)), this))
   \<and> (executingSequence this \<and> executionIntent this = VALIDATE_DEMO \<longrightarrow>
        fst (deployDemo node env this) =
          fst (validateDemo node env
                 (this\<lparr>executingSequence := False, executionIntent := NOT_SPECIFIED\<rparr>)))
   \<and> (executingSequence this \<and> executionIntent this = DEPLOY_DEMO \<longrightarrow>
        fst (deployDemo node env this) =
          fst (deployDemo node env
                 (this\<lparr>executingSequence := False, executionIntent := NOT_SPECIFIED\<rparr>)))"
proof -
  have 1: "executingSequence this \<longrightarrow> executingSequence (calls node cs this)"
    by (simp add: calls_running)
  have 2: "\<not> executingSequence this \<and> executionIntent this = NOT_SPECIFIED \<longrightarrow>
        calls node ((k, env) # cs) this =
          this\<lparr>executingSequence := True,
               executionIntent := (case k of ValidateDemo \<Rightarrow> VALIDATE_DEMO
                                           | DeployDemo \<Rightarrow> DEPLOY_DEMO)\<rparr>"
    by (cases k) (simp_all add: deployDemo_state validateDemo_state calls_intent)
  have 3: "\<not> executingSequence this \<and> intent \<noteq> DEPLOY_DEMO \<and> intent \<noteq> VALIDATE_DEMO \<longrightarrow>
        (\<exists>e. fst (setIntent intent this) = Inl e)
        \<and> snd (setIntent intent this) =
            this\<lparr>executingSequence := True, executionIntent := intent\<rparr>"
    by (cases intent) (simp_all add: setIntent_def)
  have 4: "executingSequence this \<longrightarrow>
        validateDemo node env this =
          (Inl (Error (lit ''ERROR_SEQUENCE_RUNNING: There is already another sequence running.'')), this)"
    by (simp add: validateDemo_running)
  have 5: "executingSequence this \<and> executionIntent this \<noteq> NOT_SPECIFIED \<longrightarrow>
        deployDemo node env this =
          (fst (deployDemo node env (this\<lparr>executingSequence := False\<rparr>)), this)"
    using deployDemo_skips_guard by blast
  have 6: "executingSequence this \<and> executionIntent this = VALIDATE_DEMO \<longrightarrow>
        fst (deployDemo node env this) =
          fst (validateDemo node env
                 (this\<lparr>executingSequence := False, executionIntent := NOT_SPECIFIED\<rparr>))"
    using deployDemo_again_validate by blast
  have 7: "executingSequence this \<and> executionIntent this = DEPLOY_DEMO \<longrightarrow>
        fst (deployDemo node env this) =
          fst (deployDemo node env
                 (this\<lparr>executingSequence := False, executionIntent := NOT_SPECIFIED\<rparr>))"
    using deployDemo_again_deploy by blast
  from 1 2 3 4 5 6 7 show ?thesis by blast
qed

theorem executingSequence_monotone_witness:
  "executingSequence example_validating
   \<and> executionIntent example_validating = VALIDATE_DEMO
   \<and> executingSequence
        (calls example_node [(DeployDemo, example_env), (ValidateDemo, example_env)] example_validating)
   \<and> \<not> executingSequence example_project
   \<and> executionIntent example_project = NOT_SPECIFIED
   \<and> calls example_node [(ValidateDemo, example_env), (DeployDemo, example_env)] example_project
        = example_validating
   \<and> snd (setIntent HEALTH_CHECK example_project) =
        example_project\<lparr>executingSequence := True, executionIntent := HEALTH_CHECK\<rparr>
   \<and> validateDemo example_node example_env example_validating =
        (Inl (Error (lit ''ERROR_SEQUENCE_RUNNING: There is already another sequence running.'')),
         example_validating)
   \<and> deployDemo example_node example_env example_validating = (Inr 2, example_validating)
   \<and> executingSequence example_deploying
   \<and> executionIntent example_deploying = DEPLOY_DEMO
   \<and> fst (deployDemo example_node example_env example_deploying) = Inr 1"
proof -
  have v: "executingSequence example_validating" "executionIntent example_validating = VALIDATE_DEMO"
    by (simp_all add: example_validating_def)
  have d: "executingSequence example_deploying" "executionIntent example_deploying = DEPLOY_DEMO"
    by (simp_all add: example_deploying_def)
  have p: "\<not> executingSequence example_project" "executionIntent example_project = NOT_SPECIFIED"
    by (simp_all add: example_project_def)
  have r: "example_validating\<lparr>executingSequence := False, executionIntent := NOT_SPECIFIED\<rparr>
            = example_project"
      "example_deploying\<lparr>executingSequence := False, executionIntent := NOT_SPECIFIED\<rparr>
            = example_project"
      "example_project\<lparr>executingSequence := True, executionIntent := VALIDATE_DEMO\<rparr>
            = example_validating"
    by (simp_all add: example_validating_def example_deploying_def example_project_def)
  note tv = executingSequence_monotone
         [of example_validating example_node
             "[(DeployDemo, example_env), (ValidateDemo, example_env)]" ValidateDemo example_env
             HEALTH_CHECK]
  note tp = executingSequence_monotone
         [of example_project example_node "[(DeployDemo, example_env)]" ValidateDemo example_env
             HEALTH_CHECK]
  note td = executingSequence_monotone
         [of example_deploying example_node "[]" DeployDemo example_env HEALTH_CHECK]
  from tv v have 1: "executingSequence
        (calls example_node [(DeployDemo, example_env), (ValidateDemo, example_env)] example_validating)"
    by blast
  from tp p have 2: "calls example_node [(ValidateDemo, example_env), (DeployDemo, example_env)]
        example_project = example_validating"
    by (simp add: r)
  from tp p have 3: "snd (setIntent HEALTH_CHECK example_project) =
        example_project\<lparr>executingSequence := True, executionIntent := HEALTH_CHECK\<rparr>"
    by simp
  from tv v have 4: "validateDemo example_node example_env example_validating =
        (Inl (Error (lit ''ERROR_SEQUENCE_RUNNING: There is already another sequence running.'')),
         example_validating)"
    by blast
  from tv v have "fst (deployDemo example_node example_env example_validating) =
      fst (validateDemo example_node example_env
             (example_validating\<lparr>executingSequence := False, executionIntent := NOT_SPECIFIED\<rparr>))"
    by blast
  then have 5: "fst (deployDemo example_node example_env example_validating) = Inr 2"
    by (simp add: r example_validate_run)
  from tv v have "deployDemo example_node example_env example_validating =
      (fst (deployDemo example_node example_env (example_validating\<lparr>executingSequence := False\<rparr>)),
       example_validating)"
    by simp
  then have 6: "snd (deployDemo example_node example_env example_validating) = example_validating"
    by (simp add: prod_eq_iff)
  from td d have "fst (deployDemo example_node example_env example_deploying) =
      fst (deployDemo example_node example_env
             (example_deploying\<lparr>executingSequence := False, executionIntent := NOT_SPECIFIED\<rparr>))"
    by blast
  then have 7: "fst (deployDemo example_node example_env example_deploying) = Inr 1"
    by (simp add: r example_deploy_run)
  from 1 2 3 4 5 6 7 v d p show ?thesis
    by (simp add: prod_eq_iff)
qed

section \<open>Project resolution\<close>

text \<open>
  Claim C4.  The keys that \<open>validateAppxDemoConfig\<close> collects are exactly the keys of
  the required fields that are missing or empty: all of them, each once.  When there is
  at least one, \<open>resolve\<close> (given that the SFDX project resolves and the local config
  file is retrieved and exists, which \<open>resolve\<close> checks first) fails with
  \<open>ERROR_INVALID_CONFIG\<close> and a message that lists them; when there is none, the check
  passes and \<open>resolve\<close> goes on to construct the project.
\<close>

theorem resolve_reports_missing_keys:
  assumes "SfdxProject_resolve core projectDirectory = Inr p"
    and "resolveProjectConfig core p = Inr (Some cfg)"
    and "ConfigFile_retrieve core (path_join node p (lit ''.sfdx-falcon'')) (lit ''sfdx-falcon-config.json'')
           = Inr f"
    and "file_exists f"
  shows "invalidKeys cfg = spec_missing_keys cfg
       \<and> distinct (invalidKeys cfg)
       \<and> set (invalidKeys cfg) =
           {k. \<exists>field. (k, field) \<in> set spec_required_fields \<and> spec_missing_or_empty (field cfg)}
       \<and> (spec_missing_keys cfg \<noteq> [] \<longrightarrow>
            validateAppxDemoConfig cfg = Keys (spec_missing_keys cfg)
            \<and> resolve node core projectDirectory demoConfigOverride =
                Inl (Error (lit ''ERROR_INVALID_CONFIG: Configuration for 'appxDemo' in sfdx-project.json has missing/invalid settings (''
                            @ array_toString (spec_missing_keys cfg) @ lit '').'')))
       \<and> (spec_missing_keys cfg = [] \<longrightarrow>
            validateAppxDemoConfig cfg = IsTrue
            \<and> resolve node core projectDirectory demoConfigOverride =
                construct p
                  (if demoConfigOverride \<noteq> [] then cfg\<lparr>demoConfig := Some demoConfigOverride\<rparr>
                   else cfg) f)"
proof -
  have s: "set (spec_missing_keys cfg) =
      {k. \<exists>field. (k, field) \<in> set spec_required_fields \<and> spec_missing_or_empty (field cfg)}"
    by (force simp add: spec_missing_keys_def)
  have v: "validateAppxDemoConfig cfg =
      (if spec_missing_keys cfg \<noteq> [] then Keys (spec_missing_keys cfg) else IsTrue)"
    by (simp add: validateAppxDemoConfig_def invalidKeys_spec)
  have r: "resolve node core projectDirectory demoConfigOverride =
      (case validateAppxDemoConfig cfg of
         Keys validationResponse \<Rightarrow>
           Inl (Error (lit ''ERROR_INVALID_CONFIG: Configuration for 'appxDemo' in sfdx-project.json has missing/invalid settings (''
                       @ array_toString validationResponse @ lit '').''))
       | IsTrue \<Rightarrow>
           construct p
             (if demoConfigOverride \<noteq> [] then cfg\<lparr>demoConfig := Some demoConfigOverride\<rparr>
              else cfg) f)"
    using assms by (simp add: resolve_def)
  show ?thesis
    by (simp add: invalidKeys_spec [symmetric] invalidKeys_distinct r v
          s [unfolded invalidKeys_spec [symmetric]])
qed

theorem resolve_reports_missing_keys_witness:
  "SfdxProject_resolve (example_core example_incomplete_config) (lit ''/home/dev/my-demo'')
     = Inr (lit ''/home/dev/my-demo'')
   \<and> resolveProjectConfig (example_core example_incomplete_config) (lit ''/home/dev/my-demo'')
     = Inr (Some example_incomplete_config)
   \<and> spec_missing_keys example_incomplete_config = [lit ''demoTitle'', lit ''gitHubUrl'']
   \<and> resolve example_node (example_core example_incomplete_config) (lit ''/home/dev/my-demo'') [] =
       Inl (Error (lit ''ERROR_INVALID_CONFIG: Configuration for 'appxDemo' in sfdx-project.json has missing/invalid settings (demoTitle,gitHubUrl).''))
   \<and> spec_missing_keys example_config = []
   \<and> resolve example_node (example_core example_config) (lit ''/home/dev/my-demo'') [] = Inr example_project"
proof -
  have k: "spec_missing_keys example_incomplete_config = [lit ''demoTitle'', lit ''gitHubUrl'']"
    by (simp add: spec_missing_keys_def spec_required_fields_def spec_missing_or_empty_def
          example_incomplete_config_def example_config_def)
  have k0: "spec_missing_keys example_config = []"
    by (simp add: spec_missing_keys_def spec_required_fields_def spec_missing_or_empty_def
          example_config_def)
  have h: "SfdxProject_resolve (example_core c) (lit ''/home/dev/my-demo'') = Inr (lit ''/home/dev/my-demo'')"
    "resolveProjectConfig (example_core c) (lit ''/home/dev/my-demo'') = Inr (Some c)"
    "ConfigFile_retrieve (example_core c)
        (path_join example_node (lit ''/home/dev/my-demo'') (lit ''.sfdx-falcon'')) (lit ''sfdx-falcon-config.json'')
      = Inr \<lparr>file_exists = True, toObject_appxDemo = Inr (context_config_local example_project)\<rparr>"
    "file_exists \<lparr>file_exists = True, toObject_appxDemo = Inr (context_config_local example_project)\<rparr>"
    for c
    by (simp_all add: example_core_def)
  have c: "construct (lit ''/home/dev/my-demo'') example_config
       \<lparr>file_exists = True, toObject_appxDemo = Inr (context_config_local example_project)\<rparr>
      = Inr example_project"
    by (simp add: construct_def example_project_def)
  from resolve_reports_missing_keys [OF h, of example_incomplete_config "[]"]
       resolve_reports_missing_keys [OF h, of example_config "[]"]
  show ?thesis
    by (simp add: k k0 h c)
qed

section \<open>The remote repository state classifier\<close>

text \<open>
  Claim C2.  Let \<open>r\<close> be what the probe returns (after the delay, when there is one).
  The result object of \<open>isGitRemoteEmptyAsync\<close> carries the exit code, the standard
  output and the standard error of \<open>r\<close>, and: for code 0 the promise resolves with the
  message 'Remote repository found'; for code 2 it rejects with 'Remote repository
  contains no commits'; for code 128 it rejects with 'Remote repository not found'; for
  every other code it rejects with 'Unexpected Error'.  The promise resolves exactly for
  code 0.
\<close>

theorem isGitRemoteEmptyAsync_mapping:
  assumes r: "r = sh (if 0 < w then hist @ [Wait w] else hist)
                     (Exec (lit ''git ls-remote --exit-code -h '' @ uri))"
    and out: "out = fst (isGitRemoteEmptyAsync sh (JStr uri) (Number w) hist)"
  shows "(code r = 0 \<longrightarrow>
            out = Resolved \<lparr>ro_code = 0, ro_stdout = stdout r, ro_stderr = stderr r,
                            message = lit ''Remote repository found'', ro_resolve = True\<rparr>)
       \<and> (code r = 2 \<longrightarrow>
            out = Rejected \<lparr>ro_code = 2, ro_stdout = stdout r, ro_stderr = stderr r,
                            message = lit ''Remote repository contains no commits'',
                            ro_resolve = False\<rparr>)
       \<and> (code r = 128 \<longrightarrow>
            out = Rejected \<lparr>ro_code = 128, ro_stdout = stdout r, ro_stderr = stderr r,
                            message = lit ''Remote repository not found'', ro_resolve = False\<rparr>)
       \<and> (code r \<noteq> 0 \<and> code r \<noteq> 2 \<and> code r \<noteq> 128 \<longrightarrow>
            out = Rejected \<lparr>ro_code = code r, ro_stdout = stdout r, ro_stderr = stderr r,
                            message = lit ''Unexpected Error'', ro_resolve = False\<rparr>)
       \<and> ((\<exists>ro. out = Resolved ro) \<longleftrightarrow> code r = 0)"
proof -
  have o: "out = probeCallback r"
    by (simp add: r out isGitRemoteEmptyAsync_def run_def)
  have 1: "code r = 0 \<longrightarrow>
            probeCallback r = Resolved \<lparr>ro_code = 0, ro_stdout = stdout r, ro_stderr = stderr r,
                            message = lit ''Remote repository found'', ro_resolve = True\<rparr>"
    by (simp add: probeCallback_def)
  have 2: "code r = 2 \<longrightarrow>
            probeCallback r = Rejected \<lparr>ro_code = 2, ro_stdout = stdout r, ro_stderr = stderr r,
                            message = lit ''Remote repository contains no commits'',
                            ro_resolve = False\<rparr>"
    by (simp add: probeCallback_def)
  have 3: "code r = 128 \<longrightarrow>
            probeCallback r = Rejected \<lparr>ro_code = 128, ro_stdout = stdout r, ro_stderr = stderr r,
                            message = lit ''Remote repository not found'', ro_resolve = False\<rparr>"
    by (simp add: probeCallback_def)
  have 4: "code r \<noteq> 0 \<and> code r \<noteq> 2 \<and> code r \<noteq> 128 \<longrightarrow>
            probeCallback r = Rejected \<lparr>ro_code = code r, ro_stdout = stdout r, ro_stderr = stderr r,
                            message = lit ''Unexpected Error'', ro_resolve = False\<rparr>"
    by (simp add: probeCallback_def)
  have 5: "(\<exists>ro. probeCallback r = Resolved ro) \<longleftrightarrow> code r = 0"
    by (simp add: probeCallback_def Let_def)
  from 1 2 3 4 5 show ?thesis
    unfolding o by blast
qed

theorem isGitRemoteEmptyAsync_mapping_witness:
  "fst (isGitRemoteEmptyAsync (exit_shell 0) (JStr (lit ''https://example.com/org/my-repo.git'')) (Number 0) [])
     = Resolved \<lparr>ro_code = 0, ro_stdout = [], ro_stderr = [],
                 message = lit ''Remote repository found'', ro_resolve = True\<rparr>
   \<and> fst (isGitRemoteEmptyAsync (exit_shell 2) (JStr (lit ''https://example.com/org/my-repo.git'')) (Number 0) [])
     = Rejected \<lparr>ro_code = 2, ro_stdout = [], ro_stderr = [],
                 message = lit ''Remote repository contains no commits'', ro_resolve = False\<rparr>
   \<and> fst (isGitRemoteEmptyAsync (exit_shell 128) (JStr (lit ''https://example.com/org/my-repo.git'')) (Number 0) [])
     = Rejected \<lparr>ro_code = 128, ro_stdout = [], ro_stderr = [],
                 message = lit ''Remote repository not found'', ro_resolve = False\<rparr>
   \<and> fst (isGitRemoteEmptyAsync (exit_shell 7) (JStr (lit ''https://example.com/org/my-repo.git'')) (Number 2) [])
     = Rejected \<lparr>ro_code = 7, ro_stdout = [], ro_stderr = [],
                 message = lit ''Unexpected Error'', ro_resolve = False\<rparr>"
  using isGitRemoteEmptyAsync_mapping [OF refl refl, of "exit_shell 0" 0 "[]"
          "(lit ''https://example.com/org/my-repo.git'')"]
        isGitRemoteEmptyAsync_mapping [OF refl refl, of "exit_shell 2" 0 "[]"
          "(lit ''https://example.com/org/my-repo.git'')"]
        isGitRemoteEmptyAsync_mapping [OF refl refl, of "exit_shell 128" 0 "[]"
          "(lit ''https://example.com/org/my-repo.git'')"]
        isGitRemoteEmptyAsync_mapping [OF refl refl, of "exit_shell 7" 2 "[]"
          "(lit ''https://example.com/org/my-repo.git'')"]
  by (simp add: exit_shell_def)

text \<open>
  Claim C6.  For a remote URI, the blocking form \<open>isGitRemoteEmpty\<close> returns true
  exactly when the probe ends with code 0, which is exactly when the asynchronous form
  resolves; it returns false for the codes 2, 128 and 7 alike, while the asynchronous
  form tells 2 from 128.  Whenever the asynchronous form gives the same result on two
  runs the blocking form does too, so the blocking form is the coarser of the two, and
  the two are not equivalent.
\<close>

theorem isGitRemoteEmpty_coarser:
  "fst (isGitRemoteEmpty sh (JStr uri) hist)
     = Inr (code (sh hist (Exec (lit ''git ls-remote --exit-code -h '' @ uri))) = 0)
   \<and> ((fst (isGitRemoteEmpty sh (JStr uri) hist) = Inr True)
        = (\<exists>ro. fst (isGitRemoteEmptyAsync sh (JStr uri) (Number 0) hist) = Resolved ro))
   \<and> fst (isGitRemoteEmpty (exit_shell 2) (JStr uri) hist) = Inr False
   \<and> fst (isGitRemoteEmpty (exit_shell 128) (JStr uri) hist) = Inr False
   \<and> fst (isGitRemoteEmpty (exit_shell 7) (JStr uri) hist) = Inr False
   \<and> fst (isGitRemoteEmptyAsync (exit_shell 2) (JStr uri) (Number 0) hist)
       \<noteq> fst (isGitRemoteEmptyAsync (exit_shell 128) (JStr uri) (Number 0) hist)
   \<and> (fst (isGitRemoteEmptyAsync sh (JStr uri) (Number 0) hist)
         = fst (isGitRemoteEmptyAsync sh' (JStr uri) (Number 0) hist')
       \<longrightarrow> fst (isGitRemoteEmpty sh (JStr uri) hist) = fst (isGitRemoteEmpty sh' (JStr uri) hist'))"
proof -
  let ?probe = "Exec (lit ''git ls-remote --exit-code -h '' @ uri)"
  have sync: "fst (isGitRemoteEmpty s (JStr uri) h) = Inr (code (s h ?probe) = 0)" for s h
    by (simp add: isGitRemoteEmpty_def run_fatal_def Let_def)
  have async: "fst (isGitRemoteEmptyAsync s (JStr uri) (Number 0) h) = probeCallback (s h ?probe)"
    for s h
    by (simp add: isGitRemoteEmptyAsync_def run_def)
  have res: "(\<exists>ro. probeCallback r = Resolved ro) = (code r = 0)" for r
    by (simp add: probeCallback_def Let_def)
  have x: "code (exit_shell n h c) = n" for n h c
    by (simp add: exit_shell_def)
  have 1: "fst (isGitRemoteEmpty sh (JStr uri) hist) = Inr (code (sh hist ?probe) = 0)"
    by (rule sync)
  have 2: "(fst (isGitRemoteEmpty sh (JStr uri) hist) = Inr True)
        = (\<exists>ro. fst (isGitRemoteEmptyAsync sh (JStr uri) (Number 0) hist) = Resolved ro)"
    by (simp only: sync async res) simp
  have 3: "fst (isGitRemoteEmpty (exit_shell 2) (JStr uri) hist) = Inr False"
    by (simp only: sync x) simp
  have 4: "fst (isGitRemoteEmpty (exit_shell 128) (JStr uri) hist) = Inr False"
    by (simp only: sync x) simp
  have 5: "fst (isGitRemoteEmpty (exit_shell 7) (JStr uri) hist) = Inr False"
    by (simp only: sync x) simp
  have "probeCallback (exit_shell 2 hist ?probe) \<noteq> probeCallback (exit_shell 128 hist ?probe)"
    by (simp add: probeCallback_def exit_shell_def)
  then have 6: "fst (isGitRemoteEmptyAsync (exit_shell 2) (JStr uri) (Number 0) hist)
       \<noteq> fst (isGitRemoteEmptyAsync (exit_shell 128) (JStr uri) (Number 0) hist)"
    unfolding async .
  have 7: "fst (isGitRemoteEmptyAsync sh (JStr uri) (Number 0) hist)
         = fst (isGitRemoteEmptyAsync sh' (JStr uri) (Number 0) hist')
       \<longrightarrow> fst (isGitRemoteEmpty sh (JStr uri) hist) = fst (isGitRemoteEmpty sh' (JStr uri) hist')"
  proof
    assume "fst (isGitRemoteEmptyAsync sh (JStr uri) (Number 0) hist)
         = fst (isGitRemoteEmptyAsync sh' (JStr uri) (Number 0) hist')"
    then have "probeCallback (sh hist ?probe) = probeCallback (sh' hist' ?probe)"
      by (simp only: async)
    then have "(code (sh hist ?probe) = 0) = (code (sh' hist' ?probe) = 0)"
      using res [of "sh hist ?probe"] res [of "sh' hist' ?probe"] by simp
    then show "fst (isGitRemoteEmpty sh (JStr uri) hist) = fst (isGitRemoteEmpty sh' (JStr uri) hist')"
      by (simp only: sync)
  qed
  from 1 2 3 4 5 6 7 show ?thesis by blast
qed

theorem isGitRemoteEmpty_coarser_witness:
  "fst (isGitRemoteEmptyAsync (exit_shell 2) (JStr (lit ''https://example.com/org/my-repo.git'')) (Number 0) [])
     = fst (isGitRemoteEmptyAsync (exit_shell 2) (JStr (lit ''https://example.com/org/my-repo.git''))
              (Number 0) [Cd (lit ''/home/dev'')])
   \<and> fst (isGitRemoteEmpty (exit_shell 2) (JStr (lit ''https://example.com/org/my-repo.git'')) [])
       = fst (isGitRemoteEmpty (exit_shell 2) (JStr (lit ''https://example.com/org/my-repo.git''))
                [Cd (lit ''/home/dev'')])
   \<and> fst (isGitRemoteEmpty (exit_shell 0) (JStr (lit ''https://example.com/org/my-repo.git'')) []) = Inr True
   \<and> fst (isGitRemoteEmpty (exit_shell 2) (JStr (lit ''https://example.com/org/my-repo.git'')) []) = Inr False"
proof -
  have e: "fst (isGitRemoteEmpty (exit_shell n) (JStr u) h) = Inr (n = 0)" for n u h
    by (simp add: isGitRemoteEmpty_def run_fatal_def exit_shell_def Let_def)
  have a: "fst (isGitRemoteEmptyAsync (exit_shell n) (JStr u) (Number 0) h)
         = fst (isGitRemoteEmptyAsync (exit_shell n) (JStr u) (Number 0) h')" for n u h h'
    by (simp add: isGitRemoteEmptyAsync_def run_def exit_shell_def)
  from isGitRemoteEmpty_coarser
          [of "exit_shell 2" "(lit ''https://example.com/org/my-repo.git'')" "[]" "exit_shell 2"
              "[Cd (lit ''/home/dev'')]"]
       a [of 2 "(lit ''https://example.com/org/my-repo.git'')" "[]" "[Cd (lit ''/home/dev'')]"]
  have "fst (isGitRemoteEmpty (exit_shell 2) (JStr (lit ''https://example.com/org/my-repo.git'')) [])
       = fst (isGitRemoteEmpty (exit_shell 2) (JStr (lit ''https://example.com/org/my-repo.git''))
                [Cd (lit ''/home/dev'')])"
    by blast
  with a e show ?thesis by simp
qed

section \<open>The local repository provisioner\<close>

text \<open>
  Claim C7.  \<open>gitClone\<close>, called with a remote URI and a target directory that is not
  blank, works on the resolved path \<open>t\<close> of the normalized directory.  Its first effect
  is the change into \<open>t\<close>.  When the first attempt fails, it creates \<open>t\<close> with its
  parents: if the creation fails the call fails with \<open>ERROR_INVALID_TARGET_DIR\<close>, and
  otherwise it changes into \<open>t\<close> a second time; if that fails the call fails with
  \<open>ERROR_NO_TARGET_DIR\<close>.  After the first change there is at most one more change and
  at most one creation.  Inside \<open>t\<close> it runs the clone command, and a failure of that
  command is the error 'Destination path ... already exists and is not an empty
  directory' with \<open>t\<close> as the path.
\<close>

theorem gitClone_directory_fallback:
  assumes dir: "trim dir \<noteq> []"
    and t: "t = path_resolve node (path_normalize node dir)"
    and clone: "clone = Exec (lit ''git clone '' @ uri)"
    and failed: "failed = (code (sh hist (Cd t)) \<noteq> 0 \<or> code (sh (hist @ [Cd t]) Pwd) \<noteq> 0)"
    and h1: "h1 = (if code (sh hist (Cd t)) \<noteq> 0 then hist @ [Cd t] else hist @ [Cd t, Pwd])"
    and not_empty: "not_empty = Error (lit ''Destination path '' @ [39] @ t @ [39]
                                      @ lit '' already exists and is not an empty directory.'')"
  shows "(failed \<and> code (sh h1 (Mkdir_p t)) \<noteq> 0 \<longrightarrow>
            gitClone node sh (JStr uri) (JStr dir) hist =
              (Inl (Error (lit ''ERROR_INVALID_TARGET_DIR'')), h1 @ [Mkdir_p t]))
       \<and> (failed \<and> code (sh h1 (Mkdir_p t)) = 0 \<and> code (sh (h1 @ [Mkdir_p t]) (Cd t)) \<noteq> 0 \<longrightarrow>
            gitClone node sh (JStr uri) (JStr dir) hist =
              (Inl (Error (lit ''ERROR_NO_TARGET_DIR'')), h1 @ [Mkdir_p t, Cd t]))
       \<and> (failed \<and> code (sh h1 (Mkdir_p t)) = 0 \<and> code (sh (h1 @ [Mkdir_p t]) (Cd t)) = 0 \<longrightarrow>
            gitClone node sh (JStr uri) (JStr dir) hist =
              (if code (sh (h1 @ [Mkdir_p t, Cd t]) clone) \<noteq> 0 then Inl not_empty else Inr (),
               h1 @ [Mkdir_p t, Cd t, clone]))
       \<and> (\<not> failed \<longrightarrow>
            gitClone node sh (JStr uri) (JStr dir) hist =
              (if code (sh h1 clone) \<noteq> 0 then Inl not_empty else Inr (), h1 @ [clone]))
       \<and> (\<exists>es. snd (gitClone node sh (JStr uri) (JStr dir) hist) = hist @ Cd t # es
                \<and> length (filter (\<lambda>e. e = Cd t) es) \<le> 1
                \<and> length (filter (\<lambda>e. e = Mkdir_p t) es) \<le> 1)"
proof -
  have g: "gitClone node sh (JStr uri) (JStr dir) hist =
    (case enterTarget sh t hist of
       (Inl e, h) \<Rightarrow> (Inl e, h)
     | (Inr _, h) \<Rightarrow>
         (if code (sh h clone) \<noteq> 0 then Inl not_empty else Inr (), h @ [clone]))"
    unfolding t clone not_empty by (rule gitClone_strings [OF dir])
  have e: "enterTarget sh t hist =
     (if failed then createAndEnter sh t h1 else (Inr (), h1))"
    by (simp add: enterTarget_eq failed h1)
  have 1: "failed \<and> code (sh h1 (Mkdir_p t)) \<noteq> 0 \<longrightarrow>
            gitClone node sh (JStr uri) (JStr dir) hist =
              (Inl (Error (lit ''ERROR_INVALID_TARGET_DIR'')), h1 @ [Mkdir_p t])"
    by (simp add: g e createAndEnter_eq)
  have 2: "failed \<and> code (sh h1 (Mkdir_p t)) = 0 \<and> code (sh (h1 @ [Mkdir_p t]) (Cd t)) \<noteq> 0 \<longrightarrow>
            gitClone node sh (JStr uri) (JStr dir) hist =
              (Inl (Error (lit ''ERROR_NO_TARGET_DIR'')), h1 @ [Mkdir_p t, Cd t])"
    by (simp add: g e createAndEnter_eq)
  have 3: "failed \<and> code (sh h1 (Mkdir_p t)) = 0 \<and> code (sh (h1 @ [Mkdir_p t]) (Cd t)) = 0 \<longrightarrow>
            gitClone node sh (JStr uri) (JStr dir) hist =
              (if code (sh (h1 @ [Mkdir_p t, Cd t]) clone) \<noteq> 0 then Inl not_empty else Inr (),
               h1 @ [Mkdir_p t, Cd t, clone])"
    by (simp add: g e createAndEnter_eq)
  have 4: "\<not> failed \<longrightarrow>
            gitClone node sh (JStr uri) (JStr dir) hist =
              (if code (sh h1 clone) \<noteq> 0 then Inl not_empty else Inr (), h1 @ [clone])"
    by (simp add: g e)
  have c: "clone \<noteq> Cd t" "clone \<noteq> Mkdir_p t"
    by (simp_all add: clone)
  have p: "\<exists>es. h1 = hist @ Cd t # es \<and> filter (\<lambda>e. e = Cd t) es = []
               \<and> filter (\<lambda>e. e = Mkdir_p t) es = []"
    by (simp add: h1)
  then obtain es1 where es1: "h1 = hist @ Cd t # es1" "filter (\<lambda>e. e = Cd t) es1 = []"
      "filter (\<lambda>e. e = Mkdir_p t) es1 = []"
    by blast
  have s: "snd (gitClone node sh (JStr uri) (JStr dir) hist) \<in>
      {h1 @ [Mkdir_p t], h1 @ [Mkdir_p t, Cd t], h1 @ [Mkdir_p t, Cd t, clone], h1 @ [clone]}"
    using 1 2 3 4 by (cases failed; cases "code (sh h1 (Mkdir_p t)) = 0";
        cases "code (sh (h1 @ [Mkdir_p t]) (Cd t)) = 0") simp_all
  have 5: "\<exists>es. snd (gitClone node sh (JStr uri) (JStr dir) hist) = hist @ Cd t # es
                \<and> length (filter (\<lambda>e. e = Cd t) es) \<le> 1
                \<and> length (filter (\<lambda>e. e = Mkdir_p t) es) \<le> 1"
  proof -
    from s consider
        "snd (gitClone node sh (JStr uri) (JStr dir) hist) = hist @ Cd t # (es1 @ [Mkdir_p t])"
      | "snd (gitClone node sh (JStr uri) (JStr dir) hist) = hist @ Cd t # (es1 @ [Mkdir_p t, Cd t])"
      | "snd (gitClone node sh (JStr uri) (JStr dir) hist) = hist @ Cd t # (es1 @ [Mkdir_p t, Cd t, clone])"
      | "snd (gitClone node sh (JStr uri) (JStr dir) hist) = hist @ Cd t # (es1 @ [clone])"
      by (auto simp add: es1)
    then show ?thesis
    proof cases
      case 1 then show ?thesis using es1 c by (intro exI [of _ "es1 @ [Mkdir_p t]"]) simp
    next
      case 2 then show ?thesis using es1 c by (intro exI [of _ "es1 @ [Mkdir_p t, Cd t]"]) simp
    next
      case 3 then show ?thesis using es1 c
        by (intro exI [of _ "es1 @ [Mkdir_p t, Cd t, clone]"]) simp
    next
      case 4 then show ?thesis using es1 c by (intro exI [of _ "es1 @ [clone]"]) simp
    qed
  qed
  from 1 2 3 4 5 show ?thesis by blast
qed

theorem gitClone_directory_fallback_witness:
  "gitClone example_node (scripted_shell [1, 1]) (JStr (lit ''https://example.com/org/my-repo.git''))
     (JStr (lit ''my-demo'')) []
     = (Inl (Error (lit ''ERROR_INVALID_TARGET_DIR'')),
        [Cd (lit ''/home/dev/my-demo''), Mkdir_p (lit ''/home/dev/my-demo'')])
   \<and> gitClone example_node (scripted_shell [1, 0, 1]) (JStr (lit ''https://example.com/org/my-repo.git''))
     (JStr (lit ''my-demo'')) []
     = (Inl (Error (lit ''ERROR_NO_TARGET_DIR'')),
        [Cd (lit ''/home/dev/my-demo''), Mkdir_p (lit ''/home/dev/my-demo''), Cd (lit ''/home/dev/my-demo'')])
   \<and> gitClone example_node (scripted_shell [1, 0, 0, 1]) (JStr (lit ''https://example.com/org/my-repo.git''))
     (JStr (lit ''my-demo'')) []
     = (Inl (Error (lit ''Destination path '/home/dev/my-demo' already exists and is not an empty directory.'')),
        [Cd (lit ''/home/dev/my-demo''), Mkdir_p (lit ''/home/dev/my-demo''), Cd (lit ''/home/dev/my-demo''),
         Exec (lit ''git clone https://example.com/org/my-repo.git'')])
   \<and> gitClone example_node (scripted_shell []) (JStr (lit ''https://example.com/org/my-repo.git''))
     (JStr (lit ''my-demo'')) []
     = (Inr (), [Cd (lit ''/home/dev/my-demo''), Pwd, Exec (lit ''git clone https://example.com/org/my-repo.git'')])"
proof -
  have d: "trim (lit ''my-demo'') \<noteq> []" by (simp add: trim_example)
  have t: "path_resolve example_node (path_normalize example_node (lit ''my-demo'')) = lit ''/home/dev/my-demo''"
    by (simp add: example_node_def)
  note w = gitClone_directory_fallback
             [where uri = "(lit ''https://example.com/org/my-repo.git'')" and hist = "[]",
              OF d t [symmetric] refl refl refl refl]
  have 1: "gitClone example_node (scripted_shell [1, 1]) (JStr (lit ''https://example.com/org/my-repo.git''))
     (JStr (lit ''my-demo'')) []
     = (Inl (Error (lit ''ERROR_INVALID_TARGET_DIR'')),
        [Cd (lit ''/home/dev/my-demo''), Mkdir_p (lit ''/home/dev/my-demo'')])"
    using w [where sh = "scripted_shell [1, 1]"] by (simp add: scripted_code)
  have 2: "gitClone example_node (scripted_shell [1, 0, 1]) (JStr (lit ''https://example.com/org/my-repo.git''))
     (JStr (lit ''my-demo'')) []
     = (Inl (Error (lit ''ERROR_NO_TARGET_DIR'')),
        [Cd (lit ''/home/dev/my-demo''), Mkdir_p (lit ''/home/dev/my-demo''), Cd (lit ''/home/dev/my-demo'')])"
    using w [where sh = "scripted_shell [1, 0, 1]"] by (simp add: scripted_code)
  have 3: "gitClone example_node (scripted_shell [1, 0, 0, 1]) (JStr (lit ''https://example.com/org/my-repo.git''))
     (JStr (lit ''my-demo'')) []
     = (Inl (Error (lit ''Destination path '/home/dev/my-demo' already exists and is not an empty directory.'')),
        [Cd (lit ''/home/dev/my-demo''), Mkdir_p (lit ''/home/dev/my-demo''), Cd (lit ''/home/dev/my-demo''),
         Exec (lit ''git clone https://example.com/org/my-repo.git'')])"
    using w [where sh = "scripted_shell [1, 0, 0, 1]"] by (simp add: scripted_code lit_def)
  have 4: "gitClone example_node (scripted_shell []) (JStr (lit ''https://example.com/org/my-repo.git''))
     (JStr (lit ''my-demo'')) []
     = (Inr (), [Cd (lit ''/home/dev/my-demo''), Pwd, Exec (lit ''git clone https://example.com/org/my-repo.git'')])"
    using w [where sh = "scripted_shell []"] by (simp add: scripted_code)
  from 1 2 3 4 show ?thesis by blast
qed

text \<open>
  Claim C9, as amended.  \<open>gitInit\<close>, \<open>gitAddAndCommit\<close> and \<open>gitRemoteAddOrigin\<close>
  reject each parameter that is not a string or is the empty string with a type error,
  before any shell command (the history is unchanged).  \<open>gitClone\<close> rejects a remote
  URI that is not a string, and a target directory that is given and is not a string,
  with a type error before any shell command; it rejects a target directory that is
  empty or consists of white space only (every code unit of it is one that
  \<^verbatim>\<open>trim\<close> removes) before any shell command with \<open>ERROR_INVALID_VALUE\<close>, which is
  not a type error; an omitted target directory is the directory \<open>.\<close>.
\<close>

theorem provisioner_parameter_checks:
  "(js_typeof d \<noteq> lit ''string'' \<or> d = JStr [] \<longrightarrow>
      is_type_error (fst (gitInit sh d hist)) \<and> snd (gitInit sh d hist) = hist)
   \<and> (js_typeof d \<noteq> lit ''string'' \<or> d = JStr [] \<or> js_typeof m \<noteq> lit ''string'' \<or> m = JStr [] \<longrightarrow>
      is_type_error (fst (gitAddAndCommit sh d m hist))
      \<and> snd (gitAddAndCommit sh d m hist) = hist)
   \<and> (js_typeof d \<noteq> lit ''string'' \<or> d = JStr [] \<or> js_typeof u \<noteq> lit ''string'' \<or> u = JStr [] \<longrightarrow>
      is_type_error (fst (gitRemoteAddOrigin sh d u hist))
      \<and> snd (gitRemoteAddOrigin sh d u hist) = hist)
   \<and> (js_typeof u \<noteq> lit ''string'' \<or> (d \<noteq> JUndefined \<and> js_typeof d \<noteq> lit ''string'') \<longrightarrow>
      gitClone node sh u d hist = (Inl (TypeError (lit ''ERROR_UNEXPECTED_TYPE'')), hist))
   \<and> (js_typeof u = lit ''string'' \<and> js_typeof d = lit ''string'' \<and> trim (the_string d) = [] \<longrightarrow>
      gitClone node sh u d hist = (Inl (Error (lit ''ERROR_INVALID_VALUE'')), hist)
      \<and> \<not> is_type_error (fst (gitClone node sh u d hist)))
   \<and> (trim s = [] \<longleftrightarrow> (\<forall>c \<in> set s. is_space c))
   \<and> (js_typeof u = lit ''string'' \<and> (\<forall>c \<in> set s. is_space c) \<longrightarrow>
      gitClone node sh u (JStr s) hist = (Inl (Error (lit ''ERROR_INVALID_VALUE'')), hist))
   \<and> gitClone node sh u JUndefined hist = gitClone node sh u (JStr (lit ''.'')) hist"
proof -
  have 1: "js_typeof d \<noteq> lit ''string'' \<or> d = JStr [] \<longrightarrow>
      is_type_error (fst (gitInit sh d hist)) \<and> snd (gitInit sh d hist) = hist"
    by (simp add: gitInit_def is_type_error_def expected_non_empty_string_def)
  have 2: "js_typeof d \<noteq> lit ''string'' \<or> d = JStr [] \<or> js_typeof m \<noteq> lit ''string'' \<or> m = JStr [] \<longrightarrow>
      is_type_error (fst (gitAddAndCommit sh d m hist))
      \<and> snd (gitAddAndCommit sh d m hist) = hist"
    by (simp add: gitAddAndCommit_def is_type_error_def expected_non_empty_string_def)
  have 3: "js_typeof d \<noteq> lit ''string'' \<or> d = JStr [] \<or> js_typeof u \<noteq> lit ''string'' \<or> u = JStr [] \<longrightarrow>
      is_type_error (fst (gitRemoteAddOrigin sh d u hist))
      \<and> snd (gitRemoteAddOrigin sh d u hist) = hist"
    by (simp add: gitRemoteAddOrigin_def is_type_error_def expected_non_empty_string_def)
  have 4: "js_typeof u \<noteq> lit ''string'' \<or> (d \<noteq> JUndefined \<and> js_typeof d \<noteq> lit ''string'') \<longrightarrow>
      gitClone node sh u d hist = (Inl (TypeError (lit ''ERROR_UNEXPECTED_TYPE'')), hist)"
    by (simp add: gitClone_def)
  have 5: "js_typeof u = lit ''string'' \<and> js_typeof d = lit ''string'' \<and> trim (the_string d) = [] \<longrightarrow>
      gitClone node sh u d hist = (Inl (Error (lit ''ERROR_INVALID_VALUE'')), hist)
      \<and> \<not> is_type_error (fst (gitClone node sh u d hist))"
    by (cases d) (simp_all add: gitClone_def is_type_error_def)
  have 6: "trim s = [] \<longleftrightarrow> (\<forall>c \<in> set s. is_space c)"
    by (rule trim_Nil_iff)
  have 7: "js_typeof u = lit ''string'' \<and> (\<forall>c \<in> set s. is_space c) \<longrightarrow>
      gitClone node sh u (JStr s) hist = (Inl (Error (lit ''ERROR_INVALID_VALUE'')), hist)"
    by (simp add: gitClone_def trim_Nil_iff [symmetric])
  have 8: "gitClone node sh u JUndefined hist = gitClone node sh u (JStr (lit ''.'')) hist"
    by (simp add: gitClone_def)
  from 1 2 3 4 5 6 7 8 show ?thesis by blast
qed

theorem provisioner_parameter_checks_witness:
  "gitInit (exit_shell 0) (JStr []) [] =
     (Inl (TypeError (lit ''ERROR_INVALID_TYPE: Expected non-empty string for targetDirectory but got string'')), [])
   \<and> gitAddAndCommit (exit_shell 0) (JStr (lit ''my-demo'')) JUndefined [] =
     (Inl (TypeError (lit ''ERROR_INVALID_TYPE: Expected non-empty string for commitMessage but got undefined'')), [])
   \<and> gitRemoteAddOrigin (exit_shell 0) (JStr (lit ''my-demo'')) (JStr []) [] =
     (Inl (TypeError (lit ''ERROR_INVALID_TYPE: Expected non-empty string for gitRemoteUri but got string'')), [])
   \<and> gitClone example_node (exit_shell 0) JNull (JStr (lit ''my-demo'')) [] =
     (Inl (TypeError (lit ''ERROR_UNEXPECTED_TYPE'')), [])
   \<and> gitClone example_node (exit_shell 0) (JStr (lit ''https://example.com/org/my-repo.git'')) (JStr (lit '' '')) [] =
     (Inl (Error (lit ''ERROR_INVALID_VALUE'')), [])
   \<and> trim [0x00A0, 0x0009, 0x2003, 0x3000, 0xFEFF] = []
   \<and> gitClone example_node (exit_shell 0) (JStr (lit ''https://example.com/org/my-repo.git''))
        (JStr [0x00A0, 0x0009, 0x2003, 0x3000, 0xFEFF]) [] =
     (Inl (Error (lit ''ERROR_INVALID_VALUE'')), [])"
proof -
  have a: "gitInit (exit_shell 0) (JStr []) [] =
     (Inl (TypeError (lit ''ERROR_INVALID_TYPE: Expected non-empty string for targetDirectory but got string'')), [])"
    by (simp add: gitInit_def expected_non_empty_string_def)
  have b: "gitAddAndCommit (exit_shell 0) (JStr (lit ''my-demo'')) JUndefined [] =
     (Inl (TypeError (lit ''ERROR_INVALID_TYPE: Expected non-empty string for commitMessage but got undefined'')), [])"
    by (simp add: gitAddAndCommit_def expected_non_empty_string_def)
  have c: "gitRemoteAddOrigin (exit_shell 0) (JStr (lit ''my-demo'')) (JStr []) [] =
     (Inl (TypeError (lit ''ERROR_INVALID_TYPE: Expected non-empty string for gitRemoteUri but got string'')), [])"
    by (simp add: gitRemoteAddOrigin_def expected_non_empty_string_def)
  have t: "trim (lit '' '') = []"
    by (simp add: trim_def is_space_def lit_def)
  have s: "\<forall>c \<in> set [0x00A0, 0x0009, 0x2003, 0x3000, 0xFEFF]. is_space c"
    by (simp add: is_space_def)
  from provisioner_parameter_checks
         [of "JStr []" "exit_shell 0" "[]" JUndefined "JStr []" example_node]
       provisioner_parameter_checks
         [of "JStr (lit ''my-demo'')" "exit_shell 0" "[]" JUndefined JNull example_node]
       provisioner_parameter_checks
         [of "JStr (lit '' '')" "exit_shell 0" "[]" JUndefined "JStr (lit ''https://example.com/org/my-repo.git'')"
             example_node "[0x00A0, 0x0009, 0x2003, 0x3000, 0xFEFF]"]
  show ?thesis
    by (simp add: a b c t s)
qed

text \<open>
  Claim C9, as stated, fails on \<open>gitClone\<close>: the empty target directory is rejected
  with an error that is not a type error, and the empty remote URI is not rejected
  (the clone command runs).
\<close>

theorem gitClone_parameters_counterexample:
  "gitClone example_node (exit_shell 0) (JStr (lit ''https://example.com/org/my-repo.git'')) (JStr []) []
     = (Inl (Error (lit ''ERROR_INVALID_VALUE'')), [])
   \<and> \<not> is_type_error
         (fst (gitClone example_node (exit_shell 0) (JStr (lit ''https://example.com/org/my-repo.git''))
                 (JStr []) []))
   \<and> gitClone example_node (exit_shell 0) (JStr []) (JStr (lit ''my-demo'')) []
     = (Inr (), [Cd (lit ''/home/dev/my-demo''), Pwd, Exec (lit ''git clone '')])"
  by (simp add: gitClone_def trim_def is_space_def is_type_error_def example_node_def
        enterTarget_def run_fatal_def exit_shell_def lit_def)

section \<open>The repository name of a URI\<close>

text \<open>
  Claim C8.  On 'https://example.com/org/my-repo.git' \<open>getRepoNameFromUri\<close> returns
  'my-repo'.  On 'https://example.com/.git' the regular expression does not match and
  the call ends with the type error of reading element 0 of \<^verbatim>\<open>null\<close>, not with
  \<open>ERROR_UNREADABLE_REPO_NAME\<close>; no input at all gives \<open>ERROR_UNREADABLE_REPO_NAME\<close>,
  since a match always has a name of at least one character.
\<close>

theorem getRepoNameFromUri_unmatched:
  "getRepoNameFromUri (JStr (lit ''https://example.com/org/my-repo.git'')) = Inr (lit ''my-repo'')
   \<and> getRepoNameFromUri (JStr (lit ''https://example.com/.git''))
       = Inl (TypeError (lit ''Cannot read property '0' of null''))
   \<and> getRepoNameFromUri v \<noteq> Inl (Error (lit ''ERROR_UNREADABLE_REPO_NAME''))"
proof -
  have 1: "getRepoNameFromUri (JStr (lit ''https://example.com/org/my-repo.git'')) = Inr (lit ''my-repo'')"
    by code_simp
  have 2: "getRepoNameFromUri (JStr (lit ''https://example.com/.git''))
       = Inl (TypeError (lit ''Cannot read property '0' of null''))"
    by code_simp
  from 1 2 getRepoNameFromUri_total [of v] show ?thesis by blast
qed

end
